theory Spec2Isabelle
  imports Complex_Main
begin

section \<open>Values crossing the boundary\<close>

text \<open>
  A history is whatever \<open>JSON.parse\<close> or the Temporal client hands over (\<open>any\<close> in the
  source). It is modelled as a JSON value. An object is its list of bindings, looked up
  with \<open>map_of\<close>; a number is kept only to decide whether it is truthy.
\<close>

datatype json =
    JNull
  | JBool bool
  | JNum rat
  | JStr string
  | JArr "json list"
  | JObj "(string \<times> json) list"

text \<open>
  A thrown value. \<open>ErrorInstance name message stack\<close> is a value for which
  \<open>error instanceof Error\<close> holds. \<open>OtherThrown name str\<close> is any other thrown value:
  \<open>name\<close> is its \<open>name\<close> property when it has one, \<open>str\<close> is what \<open>String(error)\<close>
  returns for it. A value on which \<open>String\<close> itself throws is not a \<open>thrown\<close>; the
  replay engine, whose rejections are arbitrary, has it as \<open>Unconvertible\<close> below.
\<close>

datatype thrown =
    ErrorInstance string string "string option"
  | OtherThrown "string option" string

text \<open>\<open>error instanceof Error ? error.message : String(error)\<close>\<close>

fun errorMessageOf :: "thrown \<Rightarrow> string" where
  "errorMessageOf (ErrorInstance n m s) = m"
| "errorMessageOf (OtherThrown n str) = str"

text \<open>\<open>error instanceof Error ? error.stack : undefined\<close>\<close>

fun errorStackOf :: "thrown \<Rightarrow> string option" where
  "errorStackOf (ErrorInstance n m s) = s"
| "errorStackOf (OtherThrown n str) = None"

text \<open>The \<open>name\<close> property of a thrown value, whatever its class.\<close>

fun thrownName :: "thrown \<Rightarrow> string option" where
  "thrownName (ErrorInstance n m s) = Some n"
| "thrownName (OtherThrown n str) = n"

fun instanceofError :: "thrown \<Rightarrow> bool" where
  "instanceofError (ErrorInstance n m s) = True"
| "instanceofError (OtherThrown n str) = False"

text \<open>JavaScript truthiness of a JSON value.\<close>

fun truthy :: "json \<Rightarrow> bool" where
  "truthy JNull = False"
| "truthy (JBool b) = b"
| "truthy (JNum n) = (n \<noteq> 0)"
| "truthy (JStr s) = (s \<noteq> [])"
| "truthy (JArr xs) = True"
| "truthy (JObj kvs) = True"

text \<open>
  \<open>key in value\<close>. On a primitive the operator throws a TypeError: \<open>None\<close>. The source
  only asks for the names \<open>workflowId\<close>, \<open>events\<close> and
  \<open>workflowExecutionStartedEventAttributes\<close>, none of which an array has.
\<close>

fun js_in :: "string \<Rightarrow> json \<Rightarrow> bool option" where
  "js_in k (JObj kvs) = Some (k \<in> set (map fst kvs))"
| "js_in k (JArr xs) = Some False"
| "js_in k v = None"

text \<open>
  \<open>value.key\<close> for the same three names, \<open>None\<close> being \<open>undefined\<close>. The source reads
  a property only of a value that passed \<open>in\<close> or is truthy, so never of \<open>null\<close>.
\<close>

fun js_get :: "json \<Rightarrow> string \<Rightarrow> json option" where
  "js_get (JObj kvs) k = map_of kvs k"
| "js_get v k = None"

fun truthy_opt :: "json option \<Rightarrow> bool" where
  "truthy_opt None = False"
| "truthy_opt (Some v) = truthy v"

text \<open>
  What the replay engine rejects with: a thrown value as above, or a value that is not an
  instance of \<open>Error\<close> and on which \<open>String(error)\<close> throws a TypeError (an object
  without a usable \<open>toString\<close> and \<open>valueOf\<close>, such as \<open>Object.create(null)\<close>).
\<close>

datatype rejection =
    Thrown thrown
  | Unconvertible

text \<open>
  Whether converting a JSON value to a string, as a template literal does, throws a
  TypeError. A primitive converts. An object converts through \<open>Object.prototype.toString\<close>
  unless it has a property \<open>toString\<close> of its own, which in a JSON value is never
  callable; then \<open>valueOf\<close> gives no primitive either and the conversion throws. An
  array joins the conversions of its elements (\<open>null\<close> giving the empty string).
\<close>

fun toString_throws :: "json \<Rightarrow> bool" where
  "toString_throws (JObj kvs) = (''toString'' \<in> set (map fst kvs))"
| "toString_throws (JArr xs) = (\<exists>x \<in> set xs. toString_throws x)"
| "toString_throws v = False"

text \<open>The message of that TypeError (the text Node.js gives it).\<close>

definition typeErrorMessage :: string where
  "typeErrorMessage = ''Cannot convert object to primitive value''"

section \<open>Results and configuration (src/config/types.ts)\<close>

datatype error_type = DeterminismViolation | ReplayError

record ReplayErrorDetail =
  type :: error_type
  message :: string
  stack :: "string option"

record ReplayResult =
  workflowId :: json
  success :: bool
  error :: "ReplayErrorDetail option"

record ReplayResults =
  total_count :: nat
  successful :: nat
  failed :: nat
  determinismViolations :: nat
  results :: "ReplayResult list"

record TlsConfig =
  cert :: string
  key :: string

record TemporalConfig =
  address :: string
  namespace :: string
  tls :: "TlsConfig option"
  serverRootCACert :: "string option"
  serverNameOverride :: "string option"

record SelectionConfig =
  historyPath :: string
  workflowIds :: "string list"
  taskQueue :: string
  query :: string
  maxHistories :: int

record BuildConfig =
  workflowsPath :: string
  buildCommand :: string
  skipBuild :: bool
  workingDirectory :: string

record OutputConfig =
  failOnReplayError :: bool
  createJobSummary :: bool

record ActionConfig =
  temporal :: TemporalConfig
  selection :: SelectionConfig
  build :: BuildConfig
  output_config :: OutputConfig

section \<open>Log lines and calls to the outside\<close>

text \<open>Decimal rendering of a number inside a template literal.\<close>

fun show_nat :: "nat \<Rightarrow> string" where
  "show_nat n =
     (if n < 10 then [''0123456789'' ! n]
      else show_nat (n div 10) @ [''0123456789'' ! (n mod 10)])"

declare show_nat.simps [simp del]

definition show_int :: "int \<Rightarrow> string" where
  "show_int i = (if i < 0 then ''-'' @ show_nat (nat (- i)) else show_nat (nat i))"

text \<open>
  The calls of \<open>core.warning\<close>, each with the values its template literal prints.
  \<open>render_warning\<close> gives the text.
\<close>

datatype warning =
    NoFilesFound string
  | LimitingFiles int nat
  | LoadFailed string string
  | LimitingIds int nat
  | FetchFailed string string
  | MaxReached int
  | MultipleMethods
  | VeryLarge
  | NoHistoriesToReplay

fun render_warning :: "warning \<Rightarrow> string" where
  "render_warning (NoFilesFound pattern) =
     ''No history files found matching pattern: '' @ pattern"
| "render_warning (LimitingFiles k n) =
     ''Limiting to first '' @ show_int k @ '' files (out of '' @ show_nat n @ '' found)''"
| "render_warning (LoadFailed file msg) =
     ''Failed to load history from '' @ file @ '': '' @ msg"
| "render_warning (LimitingIds k n) =
     ''Limiting to first '' @ show_int k @ '' workflow IDs (out of '' @ show_nat n
       @ '' provided)''"
| "render_warning (FetchFailed wid msg) =
     ''Failed to fetch history for '' @ wid @ '': '' @ msg"
| "render_warning (MaxReached k) = ''Reached max histories limit of '' @ show_int k"
| "render_warning MultipleMethods =
     ''Multiple selection methods provided. Priority: history-path > workflow-ids > task-queue > query''"
| "render_warning VeryLarge = ''max-histories is very large. This may take a long time.''"
| "render_warning NoHistoriesToReplay = ''No workflow histories found to replay''"

text \<open>
  What a function does besides returning: warnings and error log lines, and every call
  to the file system or to the Temporal client, in the order they happen.
  \<open>ReplayFailureLog kind id message\<close> is the \<open>core.error\<close> line of the replay runner for
  a failed replay, \<open>Determinism violation in id: message\<close> or \<open>Replay error in id:
  message\<close> after a cross mark, with the identifier and the message it prints.
  \<open>core.info\<close> and \<open>core.debug\<close> lines are left out.
\<close>

datatype event =
    Warning warning
  | ErrorLog string
  | ReplayFailureLog error_type json string
  | GlobCall string
  | ReadFileCall string
  | FetchHistoryCall string
  | ListCall string
  | NextHistoryCall

section \<open>Replay runner (src/temporal/replay-runner.ts)\<close>

subsection \<open>extractWorkflowId\<close>

text \<open>
  How the body of the \<open>try\<close> block ends: with a \<open>return\<close>, by reaching its end, or by a
  thrown TypeError.
\<close>

datatype try_end = Returned json | FellThrough | Raised

definition firstEventId :: "json \<Rightarrow> try_end" where
  "firstEventId firstEvent =
     (if \<not> truthy firstEvent then FellThrough
      else case js_in ''workflowExecutionStartedEventAttributes'' firstEvent of
             None \<Rightarrow> Raised
           | Some present \<Rightarrow>
               (if present \<and> truthy_opt (js_get firstEvent ''workflowExecutionStartedEventAttributes'')
                then (case js_get firstEvent ''workflowExecutionStartedEventAttributes'' of
                        None \<Rightarrow> FellThrough
                      | Some attrs \<Rightarrow>
                          (case js_get attrs ''workflowId'' of
                             None \<Rightarrow> FellThrough
                           | Some wid \<Rightarrow> if truthy wid then Returned wid else FellThrough))
                else FellThrough))"

definition eventsId :: "json \<Rightarrow> try_end" where
  "eventsId history =
     (case js_in ''events'' history of
        None \<Rightarrow> Raised
      | Some present \<Rightarrow>
          (if present then
             (case js_get history ''events'' of
                Some (JArr (firstEvent # rest)) \<Rightarrow> firstEventId firstEvent
              | _ \<Rightarrow> FellThrough)
           else FellThrough))"

definition extractWorkflowId_try :: "json \<Rightarrow> try_end" where
  "extractWorkflowId_try history =
     (case js_in ''workflowId'' history of
        None \<Rightarrow> Raised
      | Some present \<Rightarrow>
          (if present then
             (case js_get history ''workflowId'' of
                Some (JStr s) \<Rightarrow> Returned (JStr s)
              | _ \<Rightarrow> eventsId history)
           else eventsId history))"

text \<open>The \<open>catch\<close> only logs at debug level; both other ends reach \<open>return 'unknown'\<close>.\<close>

definition extractWorkflowId :: "json \<Rightarrow> json" where
  "extractWorkflowId history =
     (case extractWorkflowId_try history of
        Returned wid \<Rightarrow> wid
      | FellThrough \<Rightarrow> JStr ''unknown''
      | Raised \<Rightarrow> JStr ''unknown'')"

subsection \<open>runReplayTests\<close>

text \<open>
  \<open>Worker.runReplayHistory({workflowsPath, replayName}, history)\<close> is the external replay
  engine. It may keep state between calls, so it is a step function on a state \<open>'w\<close>:
  from the state, the workflows path, the replay name and the history it gives \<open>None\<close>
  when the promise resolves, or the value it rejects with, and the next state.
\<close>

type_synonym 'w replay_engine =
  "'w \<Rightarrow> string \<Rightarrow> json \<Rightarrow> json \<Rightarrow> rejection option \<times> 'w"

text \<open>
  The exceptions that leave \<open>runReplayTests\<close>, both a TypeError with the message
  \<open>typeErrorMessage\<close>: the identifier cannot be converted to a string by the template
  literal of the \<open>core.info\<close> line that precedes the \<open>try\<close>, or \<open>String(error)\<close> throws
  inside the \<open>catch\<close>.
\<close>

datatype runner_error =
    IdConversionError json
  | RejectionConversionError

text \<open>
  The variables of the loop: \<open>results\<close>, the two counters, the engine's state, and the
  \<open>core.error\<close> lines written so far.
\<close>

record 'w loop_vars =
  lv_results :: "ReplayResult list"
  lv_determinismViolations :: nat
  lv_otherErrors :: nat
  lv_worker :: 'w
  lv_events :: "event list"

text \<open>What the \<open>catch\<close> block builds from the value the engine rejected with.\<close>

definition isDeterminismViolation :: "thrown \<Rightarrow> bool" where
  "isDeterminismViolation err \<longleftrightarrow>
     instanceofError err \<and> thrownName err = Some ''DeterminismViolationError''"

definition failureResult :: "json \<Rightarrow> thrown \<Rightarrow> ReplayResult" where
  "failureResult wid err =
     \<lparr> workflowId = wid, success = False,
       error = Some \<lparr> type = (if isDeterminismViolation err then DeterminismViolation else ReplayError),
                      message = errorMessageOf err,
                      stack = errorStackOf err \<rparr> \<rparr>"

definition successResult :: "json \<Rightarrow> ReplayResult" where
  "successResult wid = \<lparr> workflowId = wid, success = True, error = None \<rparr>"

text \<open>
  One iteration of the \<open>for\<close> loop: the exception that leaves it, if any, and the
  variables as they then are. The \<open>core.info\<close> line before the \<open>try\<close> converts the
  identifier to a string, which can throw; the \<open>try\<close> calls the engine; the \<open>catch\<close>
  starts with \<open>String(error)\<close> for a rejection that is not an \<open>Error\<close>, which can throw
  too, before it counts and logs the failure and pushes the result.
\<close>

definition replayIteration ::
  "'w replay_engine \<Rightarrow> string \<Rightarrow> json \<Rightarrow> 'w loop_vars
     \<Rightarrow> runner_error option \<times> 'w loop_vars" where
  "replayIteration engine wfPath history vars =
     (let wid = extractWorkflowId history in
      if toString_throws wid then (Some (IdConversionError wid), vars)
      else
        (let (answer, w') = engine (lv_worker vars) wfPath wid history
         in case answer of
              None \<Rightarrow>
                (None,
                 vars \<lparr> lv_results := lv_results vars @ [successResult wid], lv_worker := w' \<rparr>)
            | Some Unconvertible \<Rightarrow>
                (Some RejectionConversionError, vars \<lparr> lv_worker := w' \<rparr>)
            | Some (Thrown err) \<Rightarrow>
                (None,
                 vars \<lparr> lv_determinismViolations :=
                          (if isDeterminismViolation err then lv_determinismViolations vars + 1
                           else lv_determinismViolations vars),
                        lv_otherErrors :=
                          (if isDeterminismViolation err then lv_otherErrors vars
                           else lv_otherErrors vars + 1),
                        lv_events :=
                          lv_events vars
                          @ [ReplayFailureLog
                               (if isDeterminismViolation err then DeterminismViolation
                                else ReplayError)
                               wid (errorMessageOf err)],
                        lv_results := lv_results vars @ [failureResult wid err],
                        lv_worker := w' \<rparr>)))"

text \<open>The loop: an exception ends it.\<close>

fun replayLoop ::
  "'w replay_engine \<Rightarrow> string \<Rightarrow> json list \<Rightarrow> 'w loop_vars
     \<Rightarrow> runner_error option \<times> 'w loop_vars" where
  "replayLoop engine wfPath [] vars = (None, vars)"
| "replayLoop engine wfPath (history # rest) vars =
     (case replayIteration engine wfPath history vars of
        (Some err, vars') \<Rightarrow> (Some err, vars')
      | (None, vars') \<Rightarrow> replayLoop engine wfPath rest vars')"

text \<open>
  \<open>runReplayTests\<close>, on the resolved workflows path (\<open>path.resolve\<close> of the working
  directory and the workflows path, computed by the caller of this model). It gives the
  \<open>ReplayResults\<close> returned or the exception thrown, then the \<open>core.error\<close> lines written
  and the engine's final state.
\<close>

definition runReplayTests ::
  "'w replay_engine \<Rightarrow> string \<Rightarrow> json list \<Rightarrow> 'w
     \<Rightarrow> (runner_error + ReplayResults) \<times> event list \<times> 'w" where
  "runReplayTests engine wfPath histories w0 =
     (case replayLoop engine wfPath histories
             \<lparr> lv_results = [], lv_determinismViolations = 0, lv_otherErrors = 0,
               lv_worker = w0, lv_events = [] \<rparr> of
        (Some err, vars) \<Rightarrow> (Inl err, lv_events vars, lv_worker vars)
      | (None, vars) \<Rightarrow>
          (let rs = lv_results vars;
               nsuccessful = length (filter (\<lambda>r. success r) rs);
               nfailed = length (filter (\<lambda>r. \<not> success r) rs)
           in (Inr \<lparr> total_count = length rs, successful = nsuccessful, failed = nfailed,
                     determinismViolations = lv_determinismViolations vars, results = rs \<rparr>,
               lv_events vars, lv_worker vars)))"

section \<open>History fetcher (src/temporal/history-fetcher.ts)\<close>

text \<open>
  The file system: \<open>glob(pattern, {absolute, nodir})\<close>, \<open>fs.readFile(file, 'utf-8')\<close> and
  \<open>JSON.parse\<close>; each gives its value (\<open>Inr\<close>) or the value it throws (\<open>Inl\<close>).
\<close>

record host =
  glob :: "string \<Rightarrow> thrown + string list"
  readFile :: "string \<Rightarrow> thrown + string"
  json_parse :: "string \<Rightarrow> thrown + json"

text \<open>
  The lazy sequence \<open>client.workflow.list({query}).intoHistories()\<close>: at each pull it
  ends, yields a history, or throws. It may be infinite.
\<close>

codatatype hist_seq =
    SeqEnd
  | SeqYield json hist_seq
  | SeqThrow thrown

text \<open>
  The Temporal client. \<open>fetchHistory wid\<close> is \<open>client.workflow.getHandle(wid)\<close> followed
  by \<open>handle.fetchHistory()\<close>; \<open>listHistories q\<close> is \<open>client.workflow.list({query: q})\<close>
  followed by \<open>intoHistories()\<close>. In each pair both calls sit in the same \<open>try\<close>.
\<close>

record client =
  fetchHistory :: "string \<Rightarrow> thrown + json"
  listHistories :: "string \<Rightarrow> thrown + hist_seq"

text \<open>
  The errors \<open>fetchHistories\<close> can end with. The first three are \<open>new Error(message)\<close>
  with the message \<open>fetch_error_message\<close> gives; \<open>Uncaught\<close> is a rejection of \<open>glob\<close>,
  which no \<open>try\<close> encloses.
\<close>

datatype fetch_error =
    EngineRequiredError
  | SelectionError
  | FetchError string
  | Uncaught thrown

fun fetch_error_message :: "fetch_error \<Rightarrow> string" where
  "fetch_error_message EngineRequiredError =
     ''Temporal client required for server-based history fetching''"
| "fetch_error_message SelectionError = ''No valid workflow selection method provided''"
| "fetch_error_message (FetchError msg) = ''Failed to fetch workflow histories: '' @ msg"
| "fetch_error_message (Uncaught t) = errorMessageOf t"

type_synonym fetched = "event list \<times> (fetch_error + json list)"

text \<open>\<open>xs.slice(0, end)\<close>: a negative \<open>end\<close> counts from the end of the array.\<close>

definition slice0 :: "'a list \<Rightarrow> int \<Rightarrow> 'a list" where
  "slice0 xs e = take (nat (if e < 0 then int (length xs) + e else e)) xs"

subsection \<open>fetchFromFiles\<close>

text \<open>The body of the \<open>try\<close> in the loop: read, then parse.\<close>

definition loadFile :: "host \<Rightarrow> string \<Rightarrow> thrown + json" where
  "loadFile h file =
     (case readFile h file of
        Inl t \<Rightarrow> Inl t
      | Inr content \<Rightarrow> json_parse h content)"

text \<open>The \<open>for\<close> loop over \<open>limitedFiles\<close>; \<open>histories.push\<close> keeps the order of the files.\<close>

fun loadFiles :: "host \<Rightarrow> string list \<Rightarrow> event list \<times> json list" where
  "loadFiles h [] = ([], [])"
| "loadFiles h (file # rest) =
     (let (evs, histories) = loadFiles h rest
      in case loadFile h file of
           Inr history \<Rightarrow> (ReadFileCall file # evs, history # histories)
         | Inl t \<Rightarrow>
             (ReadFileCall file # Warning (LoadFailed file (errorMessageOf t)) # evs,
              histories))"

definition fetchFromFiles :: "host \<Rightarrow> string \<Rightarrow> int \<Rightarrow> fetched" where
  "fetchFromFiles h pattern maxH =
     (case glob h pattern of
        Inl t \<Rightarrow> ([GlobCall pattern], Inl (Uncaught t))
      | Inr files \<Rightarrow>
          (if length files = 0 then
             ([GlobCall pattern, Warning (NoFilesFound pattern)], Inr [])
           else
             (let limitedFiles = slice0 files maxH;
                  limiting = (if int (length files) > maxH
                              then [Warning (LimitingFiles maxH (length files))] else []);
                  (evs, histories) = loadFiles h limitedFiles
              in (GlobCall pattern # limiting @ evs, Inr histories))))"

subsection \<open>fetchByIds\<close>

fun fetchEach :: "client \<Rightarrow> string list \<Rightarrow> event list \<times> json list" where
  "fetchEach c [] = ([], [])"
| "fetchEach c (wid # rest) =
     (let (evs, histories) = fetchEach c rest
      in case fetchHistory c wid of
           Inr history \<Rightarrow> (FetchHistoryCall wid # evs, history # histories)
         | Inl t \<Rightarrow>
             (FetchHistoryCall wid # Warning (FetchFailed wid (errorMessageOf t)) # evs,
              histories))"

definition fetchByIds :: "client \<Rightarrow> string list \<Rightarrow> int \<Rightarrow> fetched" where
  "fetchByIds c wids maxH =
     (let limitedIds = slice0 wids maxH;
          limiting = (if int (length wids) > maxH
                      then [Warning (LimitingIds maxH (length wids))] else []);
          (evs, histories) = fetchEach c limitedIds
      in (limiting @ evs, Inr histories))"

subsection \<open>fetchByQuery and fetchByTaskQueue\<close>

text \<open>
  The \<open>for await\<close> loop with its counter. Each turn first pulls the next history, then
  tests the counter, so the warning needs one history beyond the limit. The result is the
  histories pushed from this turn on, or the value the pull threw.
\<close>

function queryLoop :: "int \<Rightarrow> nat \<Rightarrow> hist_seq \<Rightarrow> event list \<times> (thrown + json list)" where
  "queryLoop maxH count s =
     (case s of
        SeqEnd \<Rightarrow> ([NextHistoryCall], Inr [])
      | SeqThrow t \<Rightarrow> ([NextHistoryCall], Inl t)
      | SeqYield history rest \<Rightarrow>
          (if int count \<ge> maxH then
             ([NextHistoryCall, Warning (MaxReached maxH)], Inr [])
           else
             (let (evs, r) = queryLoop maxH (count + 1) rest
              in (NextHistoryCall # evs,
                  case r of Inl t \<Rightarrow> Inl t | Inr histories \<Rightarrow> Inr (history # histories)))))"
  by pat_completeness auto
termination
  by (relation "measure (\<lambda>(maxH, count, s). nat (maxH - int count))") auto

declare queryLoop.simps [simp del]

definition fetchByQuery :: "client \<Rightarrow> string \<Rightarrow> int \<Rightarrow> fetched" where
  "fetchByQuery c q maxH =
     (case listHistories c q of
        Inl t \<Rightarrow>
          ([ListCall q, ErrorLog (''Failed to fetch histories: '' @ errorMessageOf t)],
           Inl (FetchError (errorMessageOf t)))
      | Inr s \<Rightarrow>
          (case queryLoop maxH 0 s of
             (evs, Inl t) \<Rightarrow>
               (ListCall q # evs @ [ErrorLog (''Failed to fetch histories: '' @ errorMessageOf t)],
                Inl (FetchError (errorMessageOf t)))
           | (evs, Inr histories) \<Rightarrow> (ListCall q # evs, Inr histories)))"

definition taskQueueQuery :: "string \<Rightarrow> string" where
  "taskQueueQuery tq = ''TaskQueue='' @ [CHR 0x22] @ tq @ [CHR 0x22]"

definition fetchByTaskQueue :: "client \<Rightarrow> string \<Rightarrow> int \<Rightarrow> fetched" where
  "fetchByTaskQueue c tq maxH = fetchByQuery c (taskQueueQuery tq) maxH"

subsection \<open>fetchHistories\<close>

definition fetchHistories :: "host \<Rightarrow> ActionConfig \<Rightarrow> client option \<Rightarrow> fetched" where
  "fetchHistories h config cl =
     (let sel = selection config in
      if historyPath sel \<noteq> [] then fetchFromFiles h (historyPath sel) (maxHistories sel)
      else case cl of
             None \<Rightarrow> ([], Inl EngineRequiredError)
           | Some c \<Rightarrow>
               (if length (workflowIds sel) > 0 then
                  fetchByIds c (workflowIds sel) (maxHistories sel)
                else if taskQueue sel \<noteq> [] then
                  fetchByTaskQueue c (taskQueue sel) (maxHistories sel)
                else if query sel \<noteq> [] then
                  fetchByQuery c (query sel) (maxHistories sel)
                else ([], Inl SelectionError)))"


section \<open>Reading the inputs (src/config/inputs.ts)\<close>

text \<open>
  What \<open>parseInputs\<close> reads and calls: \<open>core.getInput(name)\<close>, \<open>core.getInput(name,
  {required: true})\<close> (which throws when the input is missing),
  \<open>fs.readFile(path, 'utf-8')\<close>, \<open>parseInt\<close> (\<open>None\<close> for NaN) and
  \<open>String.prototype.trim\<close>, which strips the white space and line terminators of Unicode
  and is taken as it is.
\<close>

record action_inputs =
  getInput :: "string \<Rightarrow> string"
  getRequiredInput :: "string \<Rightarrow> thrown + string"
  readTextFile :: "string \<Rightarrow> thrown + string"
  parseInt :: "string \<Rightarrow> int option"
  trimString :: "string \<Rightarrow> string"

datatype parse_error =
    NoSelectionInput
  | MaxHistoriesTooSmall
  | UncaughtInput thrown

fun parse_error_message :: "parse_error \<Rightarrow> string" where
  "parse_error_message NoSelectionInput =
     ''Must specify at least one workflow selection method: workflow-history-path, workflow-ids, workflow-task-queue, or workflow-query''"
| "parse_error_message MaxHistoriesTooSmall = ''max-histories must be at least 1''"
| "parse_error_message (UncaughtInput t) = errorMessageOf t"

text \<open>\<open>s.split(',')\<close>.\<close>

fun split_on :: "char \<Rightarrow> string \<Rightarrow> string list" where
  "split_on c [] = [[]]"
| "split_on c (x # xs) =
     (if x = c then [] # split_on c xs
      else case split_on c xs of
             w # ws \<Rightarrow> (x # w) # ws
           | [] \<Rightarrow> [[x]])"

text \<open>\<open>!a && b ? await fs.readFile(b, 'utf-8') : a\<close>, for the certificate and the key.\<close>

definition inlineOrFile :: "action_inputs \<Rightarrow> string \<Rightarrow> string \<Rightarrow> thrown + string" where
  "inlineOrFile inp inline path =
     (if inline = [] \<and> path \<noteq> [] then readTextFile inp path else Inr inline)"

definition orNull :: "string \<Rightarrow> string option" where
  "orNull s = (if s = [] then None else Some s)"

text \<open>
  \<open>[historyPath, workflowIds, taskQueue, query].filter(Boolean)\<close> on the raw inputs, and
  \<open>parseInt(maxHistoriesInput) || 100\<close>.
\<close>

definition selectionMethods :: "action_inputs \<Rightarrow> string list" where
  "selectionMethods inp =
     filter (\<lambda>s. s \<noteq> [])
       [getInput inp ''workflow-history-path'', getInput inp ''workflow-ids'',
        getInput inp ''workflow-task-queue'', getInput inp ''workflow-query'']"

definition parsedMaxHistories :: "action_inputs \<Rightarrow> int" where
  "parsedMaxHistories inp =
     (case parseInt inp (getInput inp ''max-histories'') of
        None \<Rightarrow> 100
      | Some n \<Rightarrow> if n = 0 then 100 else n)"

text \<open>
  \<open>parseInputs\<close>, with the warnings it emits before it returns or throws
  (\<open>core.setSecret\<close> and \<open>core.debug\<close> are left out).
\<close>

definition parseInputs :: "action_inputs \<Rightarrow> event list \<times> (parse_error + ActionConfig)" where
  "parseInputs inp =
     (let temporalAddress = getInput inp ''temporal-address'';
          temporalNamespace = getInput inp ''temporal-namespace''
      in
      case inlineOrFile inp (getInput inp ''temporal-tls-cert'')
                            (getInput inp ''temporal-tls-cert-path'') of
        Inl t \<Rightarrow> ([], Inl (UncaughtInput t))
      | Inr tlsCert \<Rightarrow>
      case inlineOrFile inp (getInput inp ''temporal-tls-key'')
                            (getInput inp ''temporal-tls-key-path'') of
        Inl t \<Rightarrow> ([], Inl (UncaughtInput t))
      | Inr tlsKey \<Rightarrow>
      (let hPath = getInput inp ''workflow-history-path'';
           wIds = getInput inp ''workflow-ids'';
           tQueue = getInput inp ''workflow-task-queue'';
           qry = getInput inp ''workflow-query''
       in
       if length (selectionMethods inp) = 0 then ([], Inl NoSelectionInput)
       else
         (let multiple = (if length (selectionMethods inp) > 1 then [Warning MultipleMethods]
                          else [])
          in
          case getRequiredInput inp ''workflows-path'' of
            Inl t \<Rightarrow> (multiple, Inl (UncaughtInput t))
          | Inr wPath \<Rightarrow>
              (let maxH = parsedMaxHistories inp
               in
               if maxH < 1 then (multiple, Inl MaxHistoriesTooSmall)
               else
                 (multiple @ (if maxH > 10000 then [Warning VeryLarge] else []),
                  Inr \<lparr> temporal =
                          \<lparr> address = temporalAddress,
                            namespace = temporalNamespace,
                            tls = (if tlsCert \<noteq> [] \<and> tlsKey \<noteq> []
                                   then Some \<lparr> cert = tlsCert, key = tlsKey \<rparr> else None),
                            serverRootCACert = orNull (getInput inp ''temporal-server-root-ca-cert''),
                            serverNameOverride =
                              orNull (getInput inp ''temporal-server-name-override'') \<rparr>,
                        selection =
                          \<lparr> historyPath = hPath,
                            workflowIds = (if wIds \<noteq> []
                                           then map (trimString inp) (split_on CHR '','' wIds)
                                           else []),
                            taskQueue = tQueue,
                            query = qry,
                            maxHistories = maxH \<rparr>,
                        build =
                          \<lparr> workflowsPath = wPath,
                            buildCommand = getInput inp ''build-command'',
                            skipBuild = (getInput inp ''skip-build'' = ''true''),
                            workingDirectory =
                              (if getInput inp ''working-directory'' = [] then ''.''
                               else getInput inp ''working-directory'') \<rparr>,
                        output_config =
                          \<lparr> failOnReplayError = (getInput inp ''fail-on-replay-error'' \<noteq> ''false''),
                            createJobSummary = (getInput inp ''create-job-summary'' \<noteq> ''false'') \<rparr>
                      \<rparr>)))))"

section \<open>Connection (src/temporal/connection.ts)\<close>

text \<open>
  \<open>createTemporalConnection\<close>. \<open>connect\<close> stands for \<open>Connection.connect\<close> and
  \<open>new Client\<close> on the options built from the configuration; the error is the message
  of the \<open>Error\<close> thrown.
\<close>

definition createTemporalConnection ::
  "(ActionConfig \<Rightarrow> thrown + client) \<Rightarrow> ActionConfig \<Rightarrow> string + client option" where
  "createTemporalConnection connect config =
     (if historyPath (selection config) \<noteq> [] then Inr None
      else case connect config of
             Inl t \<Rightarrow> Inl (''Failed to connect to Temporal: '' @ errorMessageOf t)
           | Inr c \<Rightarrow> Inr (Some c))"

section \<open>Job summary\<close>

text \<open>
  Modelled from the spec: the record of one failure-detail row of the report. The file
  src/reporting/summary.ts (\<open>generateJobSummary\<close>) is not among the sources, only its
  test is. A row holds the identifier, the error kind and the message cell.
\<close>

record FailureRow =
  row_id :: json
  row_kind :: string
  row_message :: string

text \<open>
  Modelled from the spec: the report that the missing \<open>generateJobSummary\<close> builds: the
  four counts and the success rate of the summary section, the failure-detail section
  when there is one, and whether the all-clear message is there.
\<close>

record Report =
  report_total :: nat
  report_successful :: nat
  report_failed :: nat
  report_violations :: nat
  report_rate :: string
  report_failures :: "FailureRow list option"
  report_all_clear :: bool

text \<open>
  Modelled from the spec: the rate \<open>successful / total * 100\<close> of the missing
  \<open>generateJobSummary\<close>, rounded to one decimal place (to the nearest tenth, a half
  rounding up) and counted in tenths of a percent.
\<close>

definition rate_tenths :: "nat \<Rightarrow> nat \<Rightarrow> nat" where
  "rate_tenths tot succ = (2000 * succ + tot) div (2 * tot)"

text \<open>
  Modelled from the spec: the success-rate cell of the missing \<open>generateJobSummary\<close>:
  the rounded rate written \<open>N.N%\<close>, except for \<open>total = 0\<close>, where the cell is the
  literal \<open>0%\<close>.
\<close>

definition successRate :: "nat \<Rightarrow> nat \<Rightarrow> string" where
  "successRate tot succ =
     (if tot = 0 then ''0%''
      else show_nat (rate_tenths tot succ div 10) @ ''.''
           @ show_nat (rate_tenths tot succ mod 10) @ ''%'')"

text \<open>
  Modelled from the spec: the error-kind cell of a failure row in the missing
  \<open>generateJobSummary\<close>: the kind, or \<open>Unknown\<close> when the outcome has no error detail.
\<close>

definition kindCell :: "ReplayErrorDetail option \<Rightarrow> string" where
  "kindCell e =
     (case e of
        None \<Rightarrow> ''Unknown''
      | Some d \<Rightarrow> (case type d of
                     DeterminismViolation \<Rightarrow> ''DeterminismViolation''
                   | ReplayError \<Rightarrow> ''ReplayError''))"

text \<open>
  Modelled from the spec: the message cell of a failure row in the missing
  \<open>generateJobSummary\<close>: the message capped to 100 characters with \<open>...\<close> appended when
  it was cut, or \<open>No error message\<close> when there is no message.
\<close>

definition messageCell :: "ReplayErrorDetail option \<Rightarrow> string" where
  "messageCell e =
     (case e of
        None \<Rightarrow> ''No error message''
      | Some d \<Rightarrow>
          (if message d = [] then ''No error message''
           else if length (message d) > 100 then take 100 (message d) @ ''...''
           else message d))"

text \<open>
  Modelled from the spec: one failure-detail row of the missing \<open>generateJobSummary\<close>.
\<close>

definition failureRow :: "ReplayResult \<Rightarrow> FailureRow" where
  "failureRow r =
     \<lparr> row_id = workflowId r, row_kind = kindCell (error r), row_message = messageCell (error r) \<rparr>"

text \<open>
  Modelled from the spec: \<open>generateJobSummary\<close> of src/reporting/summary.ts, which is not
  among the sources. The failure-detail section is there only when \<open>failed > 0\<close>, with
  one row per failed outcome; the all-clear message when \<open>failed = 0\<close>.
\<close>

definition generateJobSummary :: "ReplayResults \<Rightarrow> Report" where
  "generateJobSummary r =
     \<lparr> report_total = total_count r,
       report_successful = successful r,
       report_failed = failed r,
       report_violations = determinismViolations r,
       report_rate = successRate (total_count r) (successful r),
       report_failures =
         (if failed r > 0 then Some (map failureRow (filter (\<lambda>x. \<not> success x) (results r)))
          else None),
       report_all_clear = (failed r = 0) \<rparr>"

section \<open>The action (src/index.ts)\<close>

text \<open>
  Everything \<open>run\<close> calls that is outside the modelled files: the inputs,
  \<open>buildWorkflows\<close> (the message of the error it throws, if any), the connection,
  the file system, \<open>path.resolve\<close> and the replay engine.
\<close>

record 'w world =
  w_inputs :: action_inputs
  w_buildWorkflows :: "ActionConfig \<Rightarrow> string option"
  w_connect :: "ActionConfig \<Rightarrow> thrown + client"
  w_host :: host
  w_resolve :: "string \<Rightarrow> string \<Rightarrow> string"
  w_engine :: "'w replay_engine"

text \<open>
  What a run leaves behind: warnings, error lines and calls, the four outputs when they
  were set, the message given to \<open>core.setFailed\<close> if any, the results of
  \<open>runReplayTests\<close> when it was called and returned, the job summary when it was
  generated, and the engine's state.
\<close>

record 'w run_result =
  run_events :: "event list"
  run_outputs :: "(nat \<times> nat \<times> nat \<times> nat) option"
  run_setFailed :: "string option"
  run_replayed :: "ReplayResults option"
  run_summary :: "Report option"
  run_worker :: 'w

text \<open>The \<open>catch\<close> of \<open>run\<close>: log the message and fail the action.\<close>

definition run_catch :: "event list \<Rightarrow> string \<Rightarrow> 'w \<Rightarrow> 'w run_result" where
  "run_catch evs msg w =
     \<lparr> run_events = evs @ [ErrorLog (''Action failed: '' @ msg)],
       run_outputs = None, run_setFailed = Some msg, run_replayed = None,
       run_summary = None, run_worker = w \<rparr>"

definition run :: "'w world \<Rightarrow> 'w \<Rightarrow> 'w run_result" where
  "run wld w0 =
     (case parseInputs (w_inputs wld) of
        (evs1, Inl e) \<Rightarrow> run_catch evs1 (parse_error_message e) w0
      | (evs1, Inr config) \<Rightarrow>
      case (if \<not> skipBuild (build config) then w_buildWorkflows wld config else None) of
        Some msg \<Rightarrow> run_catch evs1 msg w0
      | None \<Rightarrow>
      case createTemporalConnection (w_connect wld) config of
        Inl msg \<Rightarrow> run_catch evs1 msg w0
      | Inr cl \<Rightarrow>
      case fetchHistories (w_host wld) config cl of
        (evs2, Inl e) \<Rightarrow> run_catch (evs1 @ evs2) (fetch_error_message e) w0
      | (evs2, Inr histories) \<Rightarrow>
          (if length histories = 0 then
             \<lparr> run_events = evs1 @ evs2 @ [Warning NoHistoriesToReplay],
               run_outputs = Some (0, 0, 0, 0), run_setFailed = None, run_replayed = None,
               run_summary = None, run_worker = w0 \<rparr>
           else
             (case runReplayTests (w_engine wld)
                     (w_resolve wld (workingDirectory (build config))
                                    (workflowsPath (build config)))
                     histories w0 of
                (Inl err, evs3, w1) \<Rightarrow> run_catch (evs1 @ evs2 @ evs3) typeErrorMessage w1
              | (Inr res, evs3, w1) \<Rightarrow>
                  \<lparr> run_events = evs1 @ evs2 @ evs3,
                    run_outputs = Some (total_count res, successful res, failed res,
                                        determinismViolations res),
                    run_setFailed =
                      (if failOnReplayError (output_config config) \<and> failed res > 0
                       then Some (''Replay testing failed: '' @ show_nat (failed res)
                                  @ '' failure(s), '' @ show_nat (determinismViolations res)
                                  @ '' determinism violation(s)'')
                       else None),
                    run_replayed = Some res,
                    run_summary = (if createJobSummary (output_config config)
                                   then Some (generateJobSummary res) else None),
                    run_worker = w1 \<rparr>)))"

section \<open>Reference definitions for the properties\<close>

subsection \<open>The identifier of a history, as a chain of lookups\<close>

text \<open>
  The identifier as the specification words it: the top-level identifier of the record
  (its \<open>workflowId\<close>, when that is a string); failing that, the \<open>workflowId\<close> inside the
  start-event attributes of the first event (when that is truthy); failing both, the
  sentinel. Each lookup simply fails on a value of the wrong shape.
\<close>

definition spec_topLevelId :: "json \<Rightarrow> json option" where
  "spec_topLevelId history =
     (case history of
        JObj kvs \<Rightarrow> (case map_of kvs ''workflowId'' of
                       Some (JStr s) \<Rightarrow> Some (JStr s)
                     | _ \<Rightarrow> None)
      | _ \<Rightarrow> None)"

definition spec_nestedId :: "json \<Rightarrow> json option" where
  "spec_nestedId history =
     (case history of
        JObj kvs \<Rightarrow>
          (case map_of kvs ''events'' of
             Some (JArr (JObj ev # rest)) \<Rightarrow>
               (case map_of ev ''workflowExecutionStartedEventAttributes'' of
                  Some (JObj attrs) \<Rightarrow>
                    (case map_of attrs ''workflowId'' of
                       Some wid \<Rightarrow> if truthy wid then Some wid else None
                     | None \<Rightarrow> None)
                | _ \<Rightarrow> None)
           | _ \<Rightarrow> None)
      | _ \<Rightarrow> None)"

definition spec_deriveId :: "json \<Rightarrow> json" where
  "spec_deriveId history =
     (case spec_topLevelId history of
        Some wid \<Rightarrow> wid
      | None \<Rightarrow> (case spec_nestedId history of
                   Some wid \<Rightarrow> wid
                 | None \<Rightarrow> JStr ''unknown''))"

subsection \<open>The outcome of each history\<close>

text \<open>
  The histories in order, each with the answer of the engine to it, the engine being
  called once per history with its state threaded through; the outcome that belongs to
  a history and an answer (none for an answer that cannot be converted to a string); and
  whether nothing stands in the way of the run: every identifier converts to a string
  and no answer is \<open>Unconvertible\<close>.
\<close>

fun spec_answers ::
  "'w replay_engine \<Rightarrow> string \<Rightarrow> json list \<Rightarrow> 'w \<Rightarrow> (json \<times> rejection option) list" where
  "spec_answers engine p [] w = []"
| "spec_answers engine p (h # hs) w =
     (h, fst (engine w p (spec_deriveId h) h))
     # spec_answers engine p hs (snd (engine w p (spec_deriveId h) h))"

fun spec_outcome :: "json \<times> rejection option \<Rightarrow> ReplayResult option" where
  "spec_outcome (h, None) =
     Some \<lparr> workflowId = spec_deriveId h, success = True, error = None \<rparr>"
| "spec_outcome (h, Some (Thrown err)) =
     Some \<lparr> workflowId = spec_deriveId h, success = False,
            error = Some \<lparr> type = (if instanceofError err
                                        \<and> thrownName err = Some ''DeterminismViolationError''
                                     then DeterminismViolation else ReplayError),
                           message = errorMessageOf err,
                           stack = errorStackOf err \<rparr> \<rparr>"
| "spec_outcome (h, Some Unconvertible) = None"

text \<open>A result that counts as a determinism violation.\<close>

definition countsAsViolation :: "ReplayResult \<Rightarrow> bool" where
  "countsAsViolation r \<longleftrightarrow>
     (case error r of None \<Rightarrow> False | Some d \<Rightarrow> type d = DeterminismViolation)"

definition spec_unhindered :: "'w replay_engine \<Rightarrow> string \<Rightarrow> json list \<Rightarrow> 'w \<Rightarrow> bool" where
  "spec_unhindered engine p hs w \<longleftrightarrow>
     list_all (\<lambda>(h, answer). \<not> toString_throws (spec_deriveId h) \<and> answer \<noteq> Some Unconvertible)
       (spec_answers engine p hs w)"

subsection \<open>Items that load, calls that were made\<close>

text \<open>The values of the items for which \<open>f\<close> succeeds, in the order of the items.\<close>

fun successes :: "('a \<Rightarrow> thrown + json) \<Rightarrow> 'a list \<Rightarrow> json list" where
  "successes f [] = []"
| "successes f (x # xs) =
     (case f x of Inr v \<Rightarrow> v # successes f xs | Inl t \<Rightarrow> successes f xs)"

text \<open>The warnings for the items for which \<open>f\<close> fails, in the order of the items.\<close>

fun failures :: "('a \<Rightarrow> string \<Rightarrow> warning) \<Rightarrow> ('a \<Rightarrow> thrown + json) \<Rightarrow> 'a list \<Rightarrow> warning list" where
  "failures w f [] = []"
| "failures w f (x # xs) =
     (case f x of Inr v \<Rightarrow> failures w f xs | Inl t \<Rightarrow> w x (errorMessageOf t) # failures w f xs)"

text \<open>The files read, the identifiers fetched, and the warnings, as a trace shows them.\<close>

fun filesRead :: "event list \<Rightarrow> string list" where
  "filesRead [] = []"
| "filesRead (ReadFileCall f # evs) = f # filesRead evs"
| "filesRead (e # evs) = filesRead evs"

fun idsFetched :: "event list \<Rightarrow> string list" where
  "idsFetched [] = []"
| "idsFetched (FetchHistoryCall w # evs) = w # idsFetched evs"
| "idsFetched (e # evs) = idsFetched evs"

text \<open>The calls to the file system and to the client in a trace, without the log lines.\<close>

fun callsOf :: "event list \<Rightarrow> event list" where
  "callsOf [] = []"
| "callsOf (Warning w # evs) = callsOf evs"
| "callsOf (ErrorLog m # evs) = callsOf evs"
| "callsOf (ReplayFailureLog k i m # evs) = callsOf evs"
| "callsOf (e # evs) = e # callsOf evs"

fun warningsOf :: "event list \<Rightarrow> warning list" where
  "warningsOf [] = []"
| "warningsOf (Warning w # evs) = w # warningsOf evs"
| "warningsOf (e # evs) = warningsOf evs"

text \<open>A finite prefix of histories in front of a lazy sequence, and a finite sequence.\<close>

fun seq_prepend :: "json list \<Rightarrow> hist_seq \<Rightarrow> hist_seq" where
  "seq_prepend [] s = s"
| "seq_prepend (x # xs) s = SeqYield x (seq_prepend xs s)"

definition seq_of_list :: "json list \<Rightarrow> hist_seq" where
  "seq_of_list xs = seq_prepend xs SeqEnd"

subsection \<open>The populated descriptors and their priority\<close>

text \<open>
  The four acquisition descriptors of the specification, the populated ones of a
  configuration in the priority order (file pattern, identifiers, task queue, query),
  what fetching from one descriptor is, and which outside calls belong to it.
\<close>

datatype descriptor =
    FilePattern string
  | IdList "string list"
  | TaskQueueName string
  | CustomQuery string

definition spec_populated :: "SelectionConfig \<Rightarrow> descriptor list" where
  "spec_populated sel =
     (if historyPath sel \<noteq> [] then [FilePattern (historyPath sel)] else [])
     @ (if workflowIds sel \<noteq> [] then [IdList (workflowIds sel)] else [])
     @ (if taskQueue sel \<noteq> [] then [TaskQueueName (taskQueue sel)] else [])
     @ (if query sel \<noteq> [] then [CustomQuery (query sel)] else [])"

fun spec_fetchFrom :: "host \<Rightarrow> client option \<Rightarrow> int \<Rightarrow> descriptor \<Rightarrow> fetched" where
  "spec_fetchFrom h cl maxH (FilePattern p) = fetchFromFiles h p maxH"
| "spec_fetchFrom h None maxH d = ([], Inl EngineRequiredError)"
| "spec_fetchFrom h (Some c) maxH (IdList wids) = fetchByIds c wids maxH"
| "spec_fetchFrom h (Some c) maxH (TaskQueueName tq) = fetchByQuery c (taskQueueQuery tq) maxH"
| "spec_fetchFrom h (Some c) maxH (CustomQuery q) = fetchByQuery c q maxH"

fun belongsTo :: "descriptor \<Rightarrow> event \<Rightarrow> bool" where
  "belongsTo d (Warning w) = True"
| "belongsTo d (ErrorLog m) = True"
| "belongsTo (FilePattern p) (GlobCall q) = (q = p)"
| "belongsTo (FilePattern p) (ReadFileCall f) = True"
| "belongsTo (IdList wids) (FetchHistoryCall w) = (w \<in> set wids)"
| "belongsTo (TaskQueueName tq) (ListCall q) = (q = taskQueueQuery tq)"
| "belongsTo (TaskQueueName tq) NextHistoryCall = True"
| "belongsTo (CustomQuery q') (ListCall q) = (q = q')"
| "belongsTo (CustomQuery q') NextHistoryCall = True"
| "belongsTo d e = False"


section \<open>Concrete inputs\<close>

text \<open>
  The configuration the unit tests start from, around a given selection; a file system
  with three matching files of which the first cannot be read; a client for which
  \<open>wf-2\<close> does not exist and \<open>INVALID_QUERY\<close> is rejected; engines that always resolve
  or always reject with the same value.
\<close>

definition example_config :: "SelectionConfig \<Rightarrow> ActionConfig" where
  "example_config sel =
     \<lparr> temporal = \<lparr> address = ''localhost:7233'', namespace = ''default'', tls = None,
                    serverRootCACert = None, serverNameOverride = None \<rparr>,
       selection = sel,
       build = \<lparr> workflowsPath = ''lib/workflows'', buildCommand = [], skipBuild = False,
                 workingDirectory = ''.'' \<rparr>,
       output_config = \<lparr> failOnReplayError = True, createJobSummary = True \<rparr> \<rparr>"

definition example_selection :: "string \<Rightarrow> string list \<Rightarrow> string \<Rightarrow> string \<Rightarrow> int \<Rightarrow> SelectionConfig" where
  "example_selection p wids tq q k =
     \<lparr> historyPath = p, workflowIds = wids, taskQueue = tq, query = q, maxHistories = k \<rparr>"

definition example_history :: "string \<Rightarrow> json" where
  "example_history wid = JObj [(''workflowId'', JStr wid), (''events'', JArr [])]"

definition example_host :: host where
  "example_host =
     \<lparr> glob = (\<lambda>pattern. Inr [''/h/bad.json'', ''/h/one.json'', ''/h/two.json'']),
       readFile = (\<lambda>file. if file = ''/h/bad.json''
                          then Inl (ErrorInstance ''Error'' ''File not found'' None)
                          else Inr file),
       json_parse = (\<lambda>content. Inr (example_history content)) \<rparr>"

definition example_client :: client where
  "example_client =
     \<lparr> fetchHistory = (\<lambda>wid. if wid = ''wf-2''
                             then Inl (ErrorInstance ''Error'' ''Workflow not found'' None)
                             else Inr (example_history wid)),
       listHistories = (\<lambda>q. if q = ''INVALID_QUERY''
                            then Inl (ErrorInstance ''Error'' ''Invalid query syntax'' None)
                            else Inr (seq_of_list [example_history ''wf-1'',
                                                   example_history ''wf-2'',
                                                   example_history ''wf-3''])) \<rparr>"

definition resolving_engine :: "nat replay_engine" where
  "resolving_engine calls path name history = (None, calls + 1)"

definition rejecting_engine :: "thrown \<Rightarrow> nat replay_engine" where
  "rejecting_engine err calls path name history = (Some (Thrown err), calls + 1)"

text \<open>
  An engine that answers its calls from a script, as the mocks of the unit tests do: the
  state is the number of calls made so far.
\<close>

definition scripted_engine :: "rejection option list \<Rightarrow> nat replay_engine" where
  "scripted_engine script calls path name history =
     ((if calls < length script then script ! calls else None), calls + 1)"


text \<open>
  Inputs given as a table of names and values, with \<open>parseInt\<close> known on the two values
  used and \<open>trim\<close> as it is on ASCII text, and a world around them in which the build
  and the connection succeed.
\<close>

definition js_space :: "char \<Rightarrow> bool" where
  "js_space c \<longleftrightarrow> c \<in> {CHR 0x20, CHR 0x09, CHR 0x0A, CHR 0x0B, CHR 0x0C, CHR 0x0D}"

definition ascii_trim :: "string \<Rightarrow> string" where
  "ascii_trim s = rev (dropWhile js_space (rev (dropWhile js_space s)))"

definition example_inputs :: "(string \<times> string) list \<Rightarrow> action_inputs" where
  "example_inputs kvs =
     \<lparr> getInput = (\<lambda>name. case map_of kvs name of Some v \<Rightarrow> v | None \<Rightarrow> []),
       getRequiredInput =
         (\<lambda>name. case map_of kvs name of
                    Some v \<Rightarrow> Inr v
                  | None \<Rightarrow> Inl (ErrorInstance ''Error''
                                  (''Input required and not supplied: '' @ name) None)),
       readTextFile = (\<lambda>path. Inl (ErrorInstance ''Error'' ''ENOENT'' None)),
       parseInt = (\<lambda>s. if s = ''100'' then Some 100 else if s = ''2'' then Some 2 else None),
       trimString = ascii_trim \<rparr>"

definition example_world :: "(string \<times> string) list \<Rightarrow> client \<Rightarrow> nat world" where
  "example_world kvs c =
     \<lparr> w_inputs = example_inputs kvs,
       w_buildWorkflows = (\<lambda>config. None),
       w_connect = (\<lambda>config. Inr c),
       w_host = example_host,
       w_resolve = (\<lambda>dir path. dir @ ''/'' @ path),
       w_engine = resolving_engine \<rparr>"

definition common_inputs :: "(string \<times> string) list" where
  "common_inputs =
     [(''temporal-address'', ''localhost:7233''), (''temporal-namespace'', ''default''),
      (''workflows-path'', ''lib/workflows''), (''max-histories'', ''100'')]"

text \<open>
  A history whose identifier, found in the start-event attributes, is an object with a
  \<open>toString\<close> property of its own, as \<open>JSON.parse\<close> gives for \<open>{"toString": null}\<close>.
\<close>

definition awkward_history :: json where
  "awkward_history =
     JObj [(''events'',
            JArr [JObj [(''workflowExecutionStartedEventAttributes'',
                         JObj [(''workflowId'', JObj [(''toString'', JNull)])])]])]"

text \<open>A client whose listing yields one history and then throws.\<close>

definition broken_client :: client where
  "broken_client =
     \<lparr> fetchHistory = (\<lambda>wid. Inr (example_history wid)),
       listHistories = (\<lambda>q. Inr (seq_prepend [example_history ''wf-1'']
                                    (SeqThrow (OtherThrown None ''stream closed'')))) \<rparr>"




section \<open>The identifier of a history\<close>

lemma js_in_obj: "js_in k (JObj kvs) = Some (map_of kvs k \<noteq> None)"
  by (simp add: map_of_eq_None_iff)

lemma firstEventId_obj:
  "firstEventId (JObj kvs) =
     (case map_of kvs ''workflowExecutionStartedEventAttributes'' of
        Some (JObj attrs) \<Rightarrow>
          (case map_of attrs ''workflowId'' of
             Some wid \<Rightarrow> if truthy wid then Returned wid else FellThrough
           | None \<Rightarrow> FellThrough)
      | _ \<Rightarrow> FellThrough)"
  unfolding firstEventId_def js_in_obj
  by (simp split: option.splits json.splits)

lemma eventsId_obj:
  "eventsId (JObj kvs) =
     (case map_of kvs ''events'' of
        Some (JArr (ev # rest)) \<Rightarrow> firstEventId ev
      | _ \<Rightarrow> FellThrough)"
  unfolding eventsId_def js_in_obj
  by (simp split: option.splits json.splits list.splits)

lemma eventsId_nested:
  "(case eventsId h of Returned wid \<Rightarrow> wid | FellThrough \<Rightarrow> JStr ''unknown'' | Raised \<Rightarrow> JStr ''unknown'')
     = (case spec_nestedId h of Some wid \<Rightarrow> wid | None \<Rightarrow> JStr ''unknown'')"
proof (cases h)
  case (JObj kvs)
  show ?thesis
  proof (cases "map_of kvs ''events''")
    case None
    then show ?thesis using JObj by (simp add: eventsId_obj spec_nestedId_def)
  next
    case (Some evs)
    show ?thesis
    proof (cases evs)
      case (JArr xs)
      show ?thesis
      proof (cases xs)
        case Nil
        then show ?thesis using JObj Some JArr by (simp add: eventsId_obj spec_nestedId_def)
      next
        case (Cons ev rest)
        show ?thesis
        proof (cases ev)
          case (JObj ekvs)
          then show ?thesis using \<open>h = JObj kvs\<close> Some JArr Cons
            by (simp add: eventsId_obj spec_nestedId_def firstEventId_obj
                     split: option.splits json.splits)
        qed (use \<open>h = JObj kvs\<close> Some JArr Cons in
              \<open>simp_all add: eventsId_obj spec_nestedId_def firstEventId_def\<close>)
      qed
    qed (use JObj Some in \<open>simp_all add: eventsId_obj spec_nestedId_def\<close>)
  qed
qed (simp_all add: eventsId_def spec_nestedId_def)

lemma extractWorkflowId_is_spec: "extractWorkflowId h = spec_deriveId h"
proof (cases h)
  case (JObj kvs)
  have body: "extractWorkflowId_try h =
               (case map_of kvs ''workflowId'' of
                  Some (JStr s) \<Rightarrow> Returned (JStr s)
                | _ \<Rightarrow> eventsId h)"
    unfolding extractWorkflowId_try_def JObj js_in_obj
    by (simp split: option.splits json.splits)
  show ?thesis
  proof (cases "spec_topLevelId h")
    case None
    then have "extractWorkflowId_try h = eventsId h"
      using JObj body by (auto simp: spec_topLevelId_def split: option.splits json.splits)
    then show ?thesis
      using None eventsId_nested [of h] by (simp add: extractWorkflowId_def spec_deriveId_def)
  next
    case (Some wid)
    then have "extractWorkflowId_try h = Returned wid"
      using JObj body by (auto simp: spec_topLevelId_def split: option.splits json.splits)
    then show ?thesis
      using Some by (simp add: extractWorkflowId_def spec_deriveId_def)
  qed
qed (simp_all add: extractWorkflowId_def extractWorkflowId_try_def eventsId_def
       spec_deriveId_def spec_topLevelId_def spec_nestedId_def)

section \<open>Properties of the replay runner\<close>

lemma replayIteration_alt:
  "replayIteration e p h v =
     (if toString_throws (spec_deriveId h) then (Some (IdConversionError (spec_deriveId h)), v)
      else case fst (e (lv_worker v) p (spec_deriveId h) h) of
             None \<Rightarrow>
               (None, v \<lparr> lv_results := lv_results v @ [successResult (spec_deriveId h)],
                          lv_worker := snd (e (lv_worker v) p (spec_deriveId h) h) \<rparr>)
           | Some Unconvertible \<Rightarrow>
               (Some RejectionConversionError,
                v \<lparr> lv_worker := snd (e (lv_worker v) p (spec_deriveId h) h) \<rparr>)
           | Some (Thrown err) \<Rightarrow>
               (None,
                v \<lparr> lv_determinismViolations :=
                       (if isDeterminismViolation err then lv_determinismViolations v + 1
                        else lv_determinismViolations v),
                     lv_otherErrors :=
                       (if isDeterminismViolation err then lv_otherErrors v
                        else lv_otherErrors v + 1),
                     lv_events :=
                       lv_events v
                       @ [ReplayFailureLog
                            (if isDeterminismViolation err then DeterminismViolation
                             else ReplayError)
                            (spec_deriveId h) (errorMessageOf err)],
                     lv_results := lv_results v @ [failureResult (spec_deriveId h) err],
                     lv_worker := snd (e (lv_worker v) p (spec_deriveId h) h) \<rparr>))"
  by (simp add: replayIteration_def Let_def extractWorkflowId_is_spec
           split: prod.splits option.splits rejection.splits)

lemma replayIteration_id_throws:
  "toString_throws (spec_deriveId h) \<Longrightarrow>
   replayIteration e p h v = (Some (IdConversionError (spec_deriveId h)), v)"
  by (simp add: replayIteration_alt)

lemma replayIteration_rejection_throws:
  "\<not> toString_throws (spec_deriveId h) \<Longrightarrow>
   fst (e (lv_worker v) p (spec_deriveId h) h) = Some Unconvertible \<Longrightarrow>
   replayIteration e p h v
     = (Some RejectionConversionError, v \<lparr> lv_worker := snd (e (lv_worker v) p (spec_deriveId h) h) \<rparr>)"
  by (simp add: replayIteration_alt)

lemma replayIteration_completes:
  assumes "\<not> toString_throws (spec_deriveId h)"
    and "fst (e (lv_worker v) p (spec_deriveId h) h) \<noteq> Some Unconvertible"
  shows "\<exists>r v'. replayIteration e p h v = (None, v')
           \<and> spec_outcome (h, fst (e (lv_worker v) p (spec_deriveId h) h)) = Some r
           \<and> lv_results v' = lv_results v @ [r]
           \<and> lv_worker v' = snd (e (lv_worker v) p (spec_deriveId h) h)
           \<and> lv_determinismViolations v'
               = lv_determinismViolations v + (if countsAsViolation r then 1 else 0)
           \<and> (countsAsViolation r \<longrightarrow> \<not> success r)"
proof (cases "fst (e (lv_worker v) p (spec_deriveId h) h)")
  case None
  then show ?thesis using assms
    by (simp add: replayIteration_alt successResult_def countsAsViolation_def)
next
  case (Some a)
  then obtain err where "a = Thrown err" using assms(2) by (cases a) auto
  then show ?thesis using assms Some
    by (simp add: replayIteration_alt failureResult_def isDeterminismViolation_def
          countsAsViolation_def)
qed

lemma replayLoop_unhindered:
  "spec_unhindered e p hs (lv_worker v) \<Longrightarrow>
   \<exists>v'. replayLoop e p hs v = (None, v')
      \<and> map Some (lv_results v') = map Some (lv_results v) @ map spec_outcome (spec_answers e p hs (lv_worker v))
      \<and> lv_determinismViolations v' - length (filter countsAsViolation (lv_results v'))
          = lv_determinismViolations v - length (filter countsAsViolation (lv_results v))
      \<and> lv_determinismViolations v' + length (filter countsAsViolation (lv_results v))
          = lv_determinismViolations v + length (filter countsAsViolation (lv_results v'))"
proof (induction hs arbitrary: v)
  case Nil
  then show ?case by simp
next
  case (Cons h hs)
  let ?a = "e (lv_worker v) p (spec_deriveId h) h"
  from Cons.prems have ok: "\<not> toString_throws (spec_deriveId h)" "fst ?a \<noteq> Some Unconvertible"
    and rest: "spec_unhindered e p hs (snd ?a)"
    by (simp_all add: spec_unhindered_def)
  from replayIteration_completes [of h e v p, OF ok] obtain r v1 where
    it: "replayIteration e p h v = (None, v1)"
    and out: "spec_outcome (h, fst ?a) = Some r"
    and res: "lv_results v1 = lv_results v @ [r]"
    and wk: "lv_worker v1 = snd ?a"
    and dv: "lv_determinismViolations v1
               = lv_determinismViolations v + (if countsAsViolation r then 1 else 0)"
    by blast
  from Cons.IH [of v1] rest wk obtain v' where
    loop: "replayLoop e p hs v1 = (None, v')"
    and res': "map Some (lv_results v') = map Some (lv_results v1) @ map spec_outcome (spec_answers e p hs (lv_worker v1))"
    and c1: "lv_determinismViolations v' - length (filter countsAsViolation (lv_results v'))
          = lv_determinismViolations v1 - length (filter countsAsViolation (lv_results v1))"
    and c2: "lv_determinismViolations v' + length (filter countsAsViolation (lv_results v1))
          = lv_determinismViolations v1 + length (filter countsAsViolation (lv_results v'))"
    by auto
  have "replayLoop e p (h # hs) v = (None, v')"
    using it loop by simp
  moreover have "map Some (lv_results v') = map Some (lv_results v) @ map spec_outcome (spec_answers e p (h # hs) (lv_worker v))"
    using res' res out wk by simp
  moreover have "lv_determinismViolations v' - length (filter countsAsViolation (lv_results v'))
          = lv_determinismViolations v - length (filter countsAsViolation (lv_results v))"
    using c1 c2 dv res by (simp split: if_splits)
  moreover have "lv_determinismViolations v' + length (filter countsAsViolation (lv_results v))
          = lv_determinismViolations v + length (filter countsAsViolation (lv_results v'))"
    using c2 dv res by (simp split: if_splits)
  ultimately show ?case by blast
qed

lemma replayLoop_hindered:
  "\<not> spec_unhindered e p hs (lv_worker v) \<Longrightarrow> \<exists>err v'. replayLoop e p hs v = (Some err, v')"
proof (induction hs arbitrary: v)
  case Nil
  then show ?case by (simp add: spec_unhindered_def)
next
  case (Cons h hs)
  let ?a = "e (lv_worker v) p (spec_deriveId h) h"
  show ?case
  proof (cases "toString_throws (spec_deriveId h)")
    case True
    then show ?thesis by (simp add: replayIteration_id_throws)
  next
    case False
    show ?thesis
    proof (cases "fst ?a = Some Unconvertible")
      case True
      then show ?thesis using False by (simp add: replayIteration_rejection_throws)
    next
      case ok: False
      from replayIteration_completes [of h e v p, OF False ok] obtain v1 where
        it: "replayIteration e p h v = (None, v1)" and wk: "lv_worker v1 = snd ?a"
        by blast
      have "\<not> spec_unhindered e p hs (lv_worker v1)"
        using Cons.prems False ok wk by (simp add: spec_unhindered_def)
      from Cons.IH [OF this] show ?thesis using it by simp
    qed
  qed
qed

lemma spec_answers_histories: "map fst (spec_answers e p hs w) = hs"
  by (induction hs arbitrary: w) simp_all

lemma spec_outcome_id: "spec_outcome (h, a) = Some r \<Longrightarrow> workflowId r = spec_deriveId h"
  by (cases "(h, a)" rule: spec_outcome.cases) auto

lemma outcomes_ids:
  "map Some rs = map spec_outcome as \<Longrightarrow> map workflowId rs = map (\<lambda>a. spec_deriveId (fst a)) as"
proof (induction as arbitrary: rs)
  case Nil
  then show ?case by simp
next
  case (Cons a as)
  then obtain r rs' where rs: "rs = r # rs'" by (cases rs) auto
  with Cons.prems have "spec_outcome a = Some r" "map Some rs' = map spec_outcome as" by auto
  then show ?case using rs Cons.IH [of rs'] spec_outcome_id [of "fst a" "snd a" r] by simp
qed

lemma violations_failed:
  "map Some rs = map spec_outcome as \<Longrightarrow>
   length (filter countsAsViolation rs) \<le> length (filter (\<lambda>r. \<not> success r) rs)"
proof (induction as arbitrary: rs)
  case Nil
  then show ?case by simp
next
  case (Cons a as)
  then obtain r rs' where rs: "rs = r # rs'" by (cases rs) auto
  with Cons.prems have a: "spec_outcome a = Some r" and tl: "map Some rs' = map spec_outcome as"
    by auto
  have ih: "length (filter countsAsViolation rs') \<le> length (filter (\<lambda>r. \<not> success r) rs')"
    using tl by (rule Cons.IH)
  have "countsAsViolation r \<longrightarrow> \<not> success r"
    using a by (cases a rule: spec_outcome.cases) (auto simp: countsAsViolation_def)
  then show ?case using rs ih by auto
qed

lemma length_filter_split:
  "length (filter P xs) + length (filter (\<lambda>x. \<not> P x) xs) = length xs"
  by (induction xs) auto

text \<open>
  C1. For every engine (with its starting state), every workflows path and every list
  of histories, \<open>runReplayTests\<close> returns a \<open>ReplayResults\<close> exactly when nothing hinders
  the run, that is when every identifier converts to a string for the log line and no
  rejection is a value that \<open>String\<close> cannot convert; otherwise it throws and returns
  nothing. The \<open>ReplayResults\<close> it returns has \<open>total\<close> equal to the number of results
  and to \<open>successful + failed\<close>; \<open>determinismViolations\<close> is the number of results of
  kind \<open>DeterminismViolation\<close> and is at most \<open>failed\<close>; there is one result per history,
  in the order of the histories: the i-th result is the outcome of the i-th history and
  of the answer the engine gave to it, the engine being called once per history in that
  order, and its identifier is the one extracted from the i-th history.
\<close>

theorem runReplayTests_invariants:
  fixes engine :: "'w replay_engine"
  shows "case fst (runReplayTests engine p hs w0) of
           Inl err \<Rightarrow> \<not> spec_unhindered engine p hs w0
         | Inr r \<Rightarrow>
             spec_unhindered engine p hs w0
             \<and> total_count r = length (results r)
             \<and> total_count r = successful r + failed r
             \<and> determinismViolations r \<le> failed r
             \<and> determinismViolations r = length (filter countsAsViolation (results r))
             \<and> length (results r) = length hs
             \<and> map fst (spec_answers engine p hs w0) = hs
             \<and> map Some (results r) = map spec_outcome (spec_answers engine p hs w0)
             \<and> map workflowId (results r) = map extractWorkflowId hs"
proof (cases "spec_unhindered engine p hs w0")
  case False
  let ?start = "\<lparr> lv_results = [], lv_determinismViolations = 0, lv_otherErrors = 0,
                  lv_worker = w0, lv_events = [] \<rparr>"
  from False replayLoop_hindered [of engine p hs ?start]
  obtain err v' where "replayLoop engine p hs ?start = (Some err, v')" by auto
  then show ?thesis using False by (simp add: runReplayTests_def)
next
  case True
  let ?start = "\<lparr> lv_results = [], lv_determinismViolations = 0, lv_otherErrors = 0,
                  lv_worker = w0, lv_events = [] \<rparr>"
  from True replayLoop_unhindered [of engine p hs ?start]
  obtain v' where loop: "replayLoop engine p hs ?start = (None, v')"
    and outs: "map Some (lv_results v') = map spec_outcome (spec_answers engine p hs w0)"
    and dv: "lv_determinismViolations v' = length (filter countsAsViolation (lv_results v'))"
    by auto
  have len: "length (lv_results v') = length hs"
    using outs spec_answers_histories [of engine p hs w0] by (metis length_map)
  have ids: "map workflowId (lv_results v') = map extractWorkflowId hs"
  proof -
    have "map workflowId (lv_results v')
            = map (\<lambda>a. spec_deriveId (fst a)) (spec_answers engine p hs w0)"
      using outs by (rule outcomes_ids)
    also have "\<dots> = map spec_deriveId (map fst (spec_answers engine p hs w0))"
      by simp
    also have "\<dots> = map extractWorkflowId hs"
      by (simp add: spec_answers_histories extractWorkflowId_is_spec)
    finally show ?thesis .
  qed
  have le: "length (filter countsAsViolation (lv_results v'))
              \<le> length (filter (\<lambda>r. \<not> success r) (lv_results v'))"
    using outs by (rule violations_failed)
  have parts: "length (filter success (lv_results v'))
                 + length (filter (\<lambda>r. \<not> success r) (lv_results v'))
               = length (lv_results v')"
    by (rule length_filter_split)
  show ?thesis
    using True loop outs dv len ids le parts spec_answers_histories [of engine p hs w0]
    by (simp add: runReplayTests_def Let_def)
qed

section \<open>The replay step, and selection with nothing populated\<close>

text \<open>
  C7, as amended. For every history the extraction of the identifier raises nothing and
  gives the top-level \<open>workflowId\<close> of the history when that is a string, else the truthy
  \<open>workflowId\<close> in the start-event attributes of the first event, else \<open>unknown\<close>
  (\<open>spec_deriveId\<close>; the extraction of the source, with its \<open>in\<close> tests and its
  \<open>catch\<close>, computes exactly this). For every history whose identifier converts to a
  string, every engine, and every answer of the engine that is a resolution, a rejection
  with an \<open>Error\<close>, or a rejection with another value that \<open>String\<close> converts, one
  iteration of the replay loop propagates nothing and appends exactly one result. The
  engine is called with the workflows path, the identifier and the history. When it
  resolves the result is \<open>{id, success: true, error: null}\<close>. When it rejects the result
  has \<open>success: false\<close>, the message \<open>error.message\<close> of an \<open>Error\<close> and \<open>String(error)\<close>
  of anything else, and the kind \<open>DeterminismViolation\<close> exactly when the rejection is an
  instance of \<open>Error\<close> whose name is \<open>DeterminismViolationError\<close>, and \<open>ReplayError\<close>
  otherwise.
\<close>

theorem replay_step_outcome:
  fixes engine :: "'w replay_engine"
  shows "extractWorkflowId h = spec_deriveId h
       \<and> (\<not> toString_throws (spec_deriveId h)
            \<and> (fst (engine (lv_worker vars) p (spec_deriveId h) h) = None
                \<or> fst (engine (lv_worker vars) p (spec_deriveId h) h) = Some (Thrown err))
          \<longrightarrow> fst (replayIteration engine p h vars) = None
              \<and> lv_worker (snd (replayIteration engine p h vars))
                  = snd (engine (lv_worker vars) p (spec_deriveId h) h)
              \<and> lv_results (snd (replayIteration engine p h vars)) =
                  lv_results vars @
                    [if fst (engine (lv_worker vars) p (spec_deriveId h) h) = None
                     then \<lparr> workflowId = spec_deriveId h, success = True, error = None \<rparr>
                     else \<lparr> workflowId = spec_deriveId h, success = False,
                            error = Some \<lparr> type = (if instanceofError err
                                                        \<and> thrownName err
                                                            = Some ''DeterminismViolationError''
                                                     then DeterminismViolation else ReplayError),
                                           message = errorMessageOf err,
                                           stack = errorStackOf err \<rparr> \<rparr>])"
  by (auto simp: replayIteration_alt extractWorkflowId_is_spec successResult_def
        failureResult_def isDeterminismViolation_def)

text \<open>
  A rejection that is not an instance of \<open>Error\<close> but whose \<open>name\<close> is the
  determinism-violation signal is classified as \<open>ReplayError\<close>: the name alone does not
  decide the kind.
\<close>

theorem replay_kind_counterexample:
  "thrownName (OtherThrown (Some ''DeterminismViolationError'') ''[object Object]'')
     = Some ''DeterminismViolationError''
   \<and> fst (runReplayTests
             (rejecting_engine (OtherThrown (Some ''DeterminismViolationError'') ''[object Object]''))
             ''lib/workflows'' [example_history ''wf-1''] 0)
     = Inr \<lparr> total_count = 1, successful = 0, failed = 1, determinismViolations = 0,
             results =
               [\<lparr> workflowId = JStr ''wf-1'', success = False,
                   error = Some \<lparr> type = ReplayError, message = ''[object Object]'',
                                  stack = None \<rparr> \<rparr>] \<rparr>"
  by (simp add: runReplayTests_def replayIteration_def Let_def rejecting_engine_def
        failureResult_def isDeterminismViolation_def example_history_def
        extractWorkflowId_def extractWorkflowId_try_def)

lemma loadFiles_snd: "snd (loadFiles h fs) = successes (loadFile h) fs"
  by (induction fs) (auto split: prod.splits sum.splits)

lemma fetchEach_snd: "snd (fetchEach c ws) = successes (fetchHistory c) ws"
  by (induction ws) (auto split: prod.splits sum.splits)

lemma fetchFromFiles_result:
  "snd (fetchFromFiles h p k) =
     (case glob h p of
        Inl t \<Rightarrow> Inl (Uncaught t)
      | Inr files \<Rightarrow> Inr (successes (loadFile h) (slice0 files k)))"
  using loadFiles_snd [of h "slice0 (projr (glob h p)) k"]
  by (auto simp: fetchFromFiles_def Let_def slice0_def split: sum.splits prod.splits)

lemma fetchByIds_result:
  "snd (fetchByIds c ws k) = Inr (successes (fetchHistory c) (slice0 ws k))"
  using fetchEach_snd [of c "slice0 ws k"]
  by (auto simp: fetchByIds_def Let_def split: prod.splits)

lemma fetchByQuery_result:
  "snd (fetchByQuery c q k) =
     (case listHistories c q of
        Inl t \<Rightarrow> Inl (FetchError (errorMessageOf t))
      | Inr s \<Rightarrow> (case snd (queryLoop k 0 s) of
                   Inl t \<Rightarrow> Inl (FetchError (errorMessageOf t))
                 | Inr hs \<Rightarrow> Inr hs))"
  by (auto simp: fetchByQuery_def split: sum.splits prod.splits)

lemma engineRequired_iff:
  "snd (fetchHistories h config cl) = Inl EngineRequiredError
     \<longleftrightarrow> historyPath (selection config) = [] \<and> cl = None"
  by (auto simp: fetchHistories_def Let_def fetchFromFiles_result fetchByIds_result
        fetchByTaskQueue_def fetchByQuery_result split: option.splits sum.splits)

lemma null_client_only_for_files:
  "createTemporalConnection connect config = Inr None \<Longrightarrow> historyPath (selection config) \<noteq> []"
  by (auto simp: createTemporalConnection_def split: if_splits sum.splits)

text \<open>
  C2, as amended. When none of the four descriptors is populated, \<open>fetchHistories\<close>
  fails without any call or warning: with the no-valid-selection-method error when a
  client is given, and with the client-required error when the client is \<open>null\<close>, since
  the client is tested before the server-backed descriptors are. For every configuration
  the client-required error is raised exactly when the history path is empty and the
  client is \<open>null\<close>.
\<close>

theorem fetchHistories_nothing_populated:
  assumes "spec_populated (selection config) = []"
  shows "fetchHistories h config cl
           = ([], Inl (case cl of None \<Rightarrow> EngineRequiredError | Some c \<Rightarrow> SelectionError))
       \<and> (snd (fetchHistories h other cl) = Inl EngineRequiredError
            \<longleftrightarrow> historyPath (selection other) = [] \<and> cl = None)"
proof -
  from assms have "historyPath (selection config) = []" "workflowIds (selection config) = []"
    "taskQueue (selection config) = []" "query (selection config) = []"
    by (auto simp: spec_populated_def split: if_splits)
  then have "fetchHistories h config cl
           = ([], Inl (case cl of None \<Rightarrow> EngineRequiredError | Some c \<Rightarrow> SelectionError))"
    by (simp add: fetchHistories_def Let_def split: option.splits)
  then show ?thesis using engineRequired_iff [of h other cl] by simp
qed

theorem fetchHistories_nothing_populated_witness:
  "spec_populated (selection (example_config (example_selection [] [] [] [] 100))) = []
   \<and> fetchHistories example_host (example_config (example_selection [] [] [] [] 100))
        (Some example_client) = ([], Inl SelectionError)"
  using fetchHistories_nothing_populated
          [of "example_config (example_selection [] [] [] [] 100)" example_host
              "Some example_client"]
  by (simp add: spec_populated_def example_config_def example_selection_def)

text \<open>
  With nothing populated and a \<open>null\<close> client the error is the client-required one, not
  the no-valid-selection-method one.
\<close>

theorem no_selection_null_client_counterexample:
  "spec_populated (selection (example_config (example_selection [] [] [] [] 100))) = []
   \<and> snd (fetchHistories example_host (example_config (example_selection [] [] [] [] 100)) None)
       = Inl EngineRequiredError
   \<and> snd (fetchHistories example_host (example_config (example_selection [] [] [] [] 100)) None)
       \<noteq> Inl SelectionError"
  by (simp add: spec_populated_def example_config_def example_selection_def fetchHistories_def)

section \<open>What the fetch loops return, read and warn about\<close>

lemma successes_append: "successes f (xs @ ys) = successes f xs @ successes f ys"
  by (induction xs) (auto split: sum.splits)

lemma successes_length_le: "length (successes f xs) \<le> length xs"
  by (induction xs) (auto split: sum.splits)

lemma loadFiles_reads: "filesRead (fst (loadFiles h fs)) = fs"
  by (induction fs) (auto split: prod.splits sum.splits)

lemma loadFiles_warnings:
  "warningsOf (fst (loadFiles h fs)) = failures LoadFailed (loadFile h) fs"
  by (induction fs) (auto split: prod.splits sum.splits)

lemma fetchEach_ids: "idsFetched (fst (fetchEach c ws)) = ws"
  by (induction ws) (auto split: prod.splits sum.splits)

lemma fetchEach_reads: "filesRead (fst (fetchEach c ws)) = []"
  by (induction ws) (auto split: prod.splits sum.splits)

lemma fetchEach_warnings:
  "warningsOf (fst (fetchEach c ws)) = failures FetchFailed (fetchHistory c) ws"
  by (induction ws) (auto split: prod.splits sum.splits)

lemma filesRead_append: "filesRead (xs @ ys) = filesRead xs @ filesRead ys"
  by (induction xs rule: filesRead.induct) auto

lemma idsFetched_append: "idsFetched (xs @ ys) = idsFetched xs @ idsFetched ys"
  by (induction xs rule: idsFetched.induct) auto

lemma warningsOf_append: "warningsOf (xs @ ys) = warningsOf xs @ warningsOf ys"
  by (induction xs rule: warningsOf.induct) auto

lemma warningsOf_set: "Warning w \<in> set evs \<longleftrightarrow> w \<in> set (warningsOf evs)"
  by (induction evs rule: warningsOf.induct) auto

lemma fetchFromFiles_reads:
  "glob h p = Inr files \<Longrightarrow> filesRead (fst (fetchFromFiles h p k)) = slice0 files k"
  using loadFiles_reads [of h "slice0 files k"]
  by (auto simp: fetchFromFiles_def Let_def filesRead_append slice0_def split: prod.splits)

lemma fetchFromFiles_warnings:
  "glob h p = Inr files \<Longrightarrow>
   warningsOf (fst (fetchFromFiles h p k)) =
     (if files = [] then [NoFilesFound p]
      else (if int (length files) > k then [LimitingFiles k (length files)] else [])
           @ failures LoadFailed (loadFile h) (slice0 files k))"
  using loadFiles_warnings [of h "slice0 files k"]
  by (auto simp: fetchFromFiles_def Let_def warningsOf_append split: prod.splits)

lemma fetchByIds_ids: "idsFetched (fst (fetchByIds c ws k)) = slice0 ws k"
  using fetchEach_ids [of c "slice0 ws k"]
  by (auto simp: fetchByIds_def Let_def idsFetched_append split: prod.splits)

lemma fetchByIds_warnings:
  "warningsOf (fst (fetchByIds c ws k)) =
     (if int (length ws) > k then [LimitingIds k (length ws)] else [])
     @ failures FetchFailed (fetchHistory c) (slice0 ws k)"
  using fetchEach_warnings [of c "slice0 ws k"]
  by (auto simp: fetchByIds_def Let_def warningsOf_append split: prod.splits)

lemma failures_LoadFailed_no_limit: "LimitingFiles k n \<notin> set (failures LoadFailed f xs)"
  by (induction xs) (auto split: sum.splits)

lemma failures_FetchFailed_no_limit: "LimitingIds k n \<notin> set (failures FetchFailed f xs)"
  by (induction xs) (auto split: sum.splits)

lemma failures_mem:
  "x \<in> set xs \<Longrightarrow> f x = Inl t \<Longrightarrow> w x (errorMessageOf t) \<in> set (failures w f xs)"
  by (induction xs) (auto split: sum.splits)

lemma slice0_nonneg: "0 \<le> k \<Longrightarrow> slice0 xs k = take (nat k) xs"
  by (simp add: slice0_def)

lemma queryLoop_finite:
  "snd (queryLoop k count (seq_prepend xs SeqEnd)) = Inr (take (nat (k - int count)) xs)
   \<and> warningsOf (fst (queryLoop k count (seq_prepend xs SeqEnd))) =
       (if length xs > nat (k - int count) then [MaxReached k] else [])"
proof (induction xs arbitrary: count)
  case Nil
  show ?case by (subst queryLoop.simps, subst (2) queryLoop.simps) simp
next
  case (Cons x xs)
  show ?case
  proof (cases "int count \<ge> k")
    case True
    then show ?thesis
      by (subst queryLoop.simps, subst (2) queryLoop.simps) simp
  next
    case False
    then have m: "nat (k - int count) = Suc (nat (k - int (count + 1)))" by simp
    from Cons.IH [of "count + 1"] False show ?thesis
      by (subst queryLoop.simps, subst (2) queryLoop.simps)
         (auto simp: m split: prod.splits sum.splits simp del: of_nat_Suc of_nat_add)
  qed
qed

lemma queryLoop_throws:
  "xs = [] \<or> int (length xs) \<le> k - int count \<Longrightarrow>
   snd (queryLoop k count (seq_prepend xs (SeqThrow t))) = Inl t"
proof (induction xs arbitrary: count)
  case Nil
  show ?case by (subst queryLoop.simps) simp
next
  case (Cons x xs)
  then have lt: "\<not> int count \<ge> k" by auto
  from Cons.prems have "xs = [] \<or> int (length xs) \<le> k - int (count + 1)" by auto
  from Cons.IH [OF this] lt show ?case
    by (subst queryLoop.simps) (auto split: prod.splits sum.splits)
qed

lemma callsOf_append: "callsOf (xs @ ys) = callsOf xs @ callsOf ys"
  by (induction xs rule: callsOf.induct) auto

lemma queryLoop_prefix:
  "nat (k - int count) < length ys \<Longrightarrow>
   snd (queryLoop k count (seq_prepend ys tail)) = Inr (take (nat (k - int count)) ys)
   \<and> warningsOf (fst (queryLoop k count (seq_prepend ys tail))) = [MaxReached k]
   \<and> callsOf (fst (queryLoop k count (seq_prepend ys tail)))
       = replicate (Suc (nat (k - int count))) NextHistoryCall"
proof (induction ys arbitrary: count)
  case Nil
  then show ?case by simp
next
  case (Cons y ys)
  show ?case
  proof (cases "int count \<ge> k")
    case True
    then show ?thesis
      by (subst queryLoop.simps, subst (2) queryLoop.simps, subst (3) queryLoop.simps) simp
  next
    case False
    then have m: "nat (k - int count) = Suc (nat (k - int (count + 1)))" by simp
    then have "nat (k - int (count + 1)) < length ys" using Cons.prems by simp
    from Cons.IH [OF this] False show ?thesis
      by (subst queryLoop.simps, subst (2) queryLoop.simps, subst (3) queryLoop.simps)
         (auto simp: m split: prod.splits sum.splits simp del: of_nat_Suc of_nat_add)
  qed
qed

section \<open>The cap on the number of histories\<close>

lemma failures_count:
  "length (successes f xs) + length (filter (\<lambda>x. isl (f x)) xs) = length xs"
  by (induction xs) (auto split: sum.splits)

text \<open>
  C4, as amended. Let \<open>k \<ge> 0\<close> be \<open>maxHistories\<close>. On the file path, with \<open>n\<close> matched
  files: exactly the first \<open>min n k\<close> files are read, the histories returned are those
  of them that load, in order, and the truncation warning is emitted exactly when
  \<open>n > k\<close>. On the identifier path the same holds for the \<open>n\<close> identifiers, whatever
  the client. On both paths the number returned is \<open>min n k\<close> less the number of items
  among the first \<open>k\<close> that failed to load; it is \<open>k\<close> for \<open>n > k\<close> only when each of
  the first \<open>k\<close> loads. On the query and task-queue path, for a listing that yields \<open>n\<close>
  histories and ends: exactly the first \<open>min n k\<close> histories are returned and the limit
  warning is emitted exactly when \<open>n > k\<close>. For a listing that yields more than \<open>k\<close>
  histories, whatever follows them (more histories without end, or a failure): exactly
  the first \<open>k\<close> are returned, the limit warning is emitted, and the sequence is pulled
  \<open>k + 1\<close> times and no further.
\<close>

theorem cap_on_each_source:
  assumes k: "0 \<le> k"
    and files: "glob h p = Inr files"
    and ending: "listHistories qc q = Inr (seq_of_list xs)"
  shows "filesRead (fst (fetchFromFiles h p k)) = take (nat k) files
       \<and> snd (fetchFromFiles h p k) = Inr (successes (loadFile h) (take (nat k) files))
       \<and> (Warning (LimitingFiles k (length files)) \<in> set (fst (fetchFromFiles h p k))
            \<longleftrightarrow> int (length files) > k)
       \<and> length (successes (loadFile h) (take (nat k) files))
           + length (filter (\<lambda>f. isl (loadFile h f)) (take (nat k) files))
           = min (length files) (nat k)
       \<and> idsFetched (fst (fetchByIds c wids k)) = take (nat k) wids
       \<and> snd (fetchByIds c wids k) = Inr (successes (fetchHistory c) (take (nat k) wids))
       \<and> (Warning (LimitingIds k (length wids)) \<in> set (fst (fetchByIds c wids k))
            \<longleftrightarrow> int (length wids) > k)
       \<and> length (successes (fetchHistory c) (take (nat k) wids))
           + length (filter (\<lambda>w. isl (fetchHistory c w)) (take (nat k) wids))
           = min (length wids) (nat k)
       \<and> snd (fetchByQuery qc q k) = Inr (take (nat k) xs)
       \<and> (Warning (MaxReached k) \<in> set (fst (fetchByQuery qc q k)) \<longleftrightarrow> int (length xs) > k)
       \<and> (listHistories uc uq = Inr (seq_prepend ys tail) \<and> int (length ys) > k
          \<longrightarrow> snd (fetchByQuery uc uq k) = Inr (take (nat k) ys)
              \<and> Warning (MaxReached k) \<in> set (fst (fetchByQuery uc uq k))
              \<and> callsOf (fst (fetchByQuery uc uq k))
                  = ListCall uq # replicate (nat k + 1) NextHistoryCall)"
proof -
  have f1: "filesRead (fst (fetchFromFiles h p k)) = take (nat k) files"
    using fetchFromFiles_reads [OF files, of k] k by (simp add: slice0_nonneg)
  have f2: "snd (fetchFromFiles h p k) = Inr (successes (loadFile h) (take (nat k) files))"
    using k files by (simp add: fetchFromFiles_result slice0_nonneg)
  have f3: "Warning (LimitingFiles k (length files)) \<in> set (fst (fetchFromFiles h p k))
            \<longleftrightarrow> int (length files) > k"
    using k by (auto simp: warningsOf_set fetchFromFiles_warnings [OF files]
                  failures_LoadFailed_no_limit)
  have i1: "idsFetched (fst (fetchByIds c wids k)) = take (nat k) wids"
    using k by (simp add: fetchByIds_ids slice0_nonneg)
  have i2: "snd (fetchByIds c wids k) = Inr (successes (fetchHistory c) (take (nat k) wids))"
    using k by (simp add: fetchByIds_result slice0_nonneg)
  have i3: "Warning (LimitingIds k (length wids)) \<in> set (fst (fetchByIds c wids k))
            \<longleftrightarrow> int (length wids) > k"
    by (auto simp: warningsOf_set fetchByIds_warnings failures_FetchFailed_no_limit)
  have loop: "snd (queryLoop k 0 (seq_of_list xs)) = Inr (take (nat k) xs)"
      "warningsOf (fst (queryLoop k 0 (seq_of_list xs)))
         = (if length xs > nat k then [MaxReached k] else [])"
    using queryLoop_finite [of k 0 xs] by (simp_all add: seq_of_list_def)
  have q1: "snd (fetchByQuery qc q k) = Inr (take (nat k) xs)"
    using ending loop(1) by (simp add: fetchByQuery_result)
  have "warningsOf (fst (fetchByQuery qc q k))
          = (if length xs > nat k then [MaxReached k] else [])"
    using ending loop by (auto simp: fetchByQuery_def split: prod.splits sum.splits)
  then have q2: "Warning (MaxReached k) \<in> set (fst (fetchByQuery qc q k))
                   \<longleftrightarrow> int (length xs) > k"
    using k by (auto simp: warningsOf_set)
  have n1: "length (successes (loadFile h) (take (nat k) files))
           + length (filter (\<lambda>f. isl (loadFile h f)) (take (nat k) files))
           = min (length files) (nat k)"
    using failures_count [of "loadFile h" "take (nat k) files"] by simp
  have n2: "length (successes (fetchHistory c) (take (nat k) wids))
           + length (filter (\<lambda>w. isl (fetchHistory c w)) (take (nat k) wids))
           = min (length wids) (nat k)"
    using failures_count [of "fetchHistory c" "take (nat k) wids"] by simp
  have u: "listHistories uc uq = Inr (seq_prepend ys tail) \<and> int (length ys) > k
          \<longrightarrow> snd (fetchByQuery uc uq k) = Inr (take (nat k) ys)
              \<and> Warning (MaxReached k) \<in> set (fst (fetchByQuery uc uq k))
              \<and> callsOf (fst (fetchByQuery uc uq k))
                  = ListCall uq # replicate (nat k + 1) NextHistoryCall"
  proof
    assume a: "listHistories uc uq = Inr (seq_prepend ys tail) \<and> int (length ys) > k"
    then have "nat (k - int 0) < length ys" using k by (simp add: nat_less_iff)
    from queryLoop_prefix [OF this, of tail]
    have l: "snd (queryLoop k 0 (seq_prepend ys tail)) = Inr (take (nat k) ys)"
      "warningsOf (fst (queryLoop k 0 (seq_prepend ys tail))) = [MaxReached k]"
      "callsOf (fst (queryLoop k 0 (seq_prepend ys tail)))
         = replicate (Suc (nat k)) NextHistoryCall"
      by simp_all
    obtain evs where pair: "queryLoop k 0 (seq_prepend ys tail) = (evs, Inr (take (nat k) ys))"
      using l(1) by (cases "queryLoop k 0 (seq_prepend ys tail)") auto
    have full: "fetchByQuery uc uq k = (ListCall uq # evs, Inr (take (nat k) ys))"
      using a pair by (simp add: fetchByQuery_def)
    show "snd (fetchByQuery uc uq k) = Inr (take (nat k) ys)
              \<and> Warning (MaxReached k) \<in> set (fst (fetchByQuery uc uq k))
              \<and> callsOf (fst (fetchByQuery uc uq k))
                  = ListCall uq # replicate (nat k + 1) NextHistoryCall"
      using full l pair by (simp add: warningsOf_set)
  qed
  show ?thesis using f1 f2 f3 i1 i2 i3 q1 q2 n1 n2 u by blast
qed

lemma example_loads:
  "loadFile example_host ''/h/bad.json'' = Inl (ErrorInstance ''Error'' ''File not found'' None)"
  "loadFile example_host ''/h/one.json'' = Inr (example_history ''/h/one.json'')"
  "loadFile example_host ''/h/two.json'' = Inr (example_history ''/h/two.json'')"
  by (simp_all add: loadFile_def example_host_def)

lemma example_glob:
  "glob example_host p = Inr [''/h/bad.json'', ''/h/one.json'', ''/h/two.json'']"
  by (simp add: example_host_def)

lemma example_listing:
  "listHistories example_client ''WorkflowType=X'' =
     Inr (seq_of_list [example_history ''wf-1'', example_history ''wf-2'', example_history ''wf-3''])"
  by (simp add: example_client_def)

lemma example_fetches:
  "fetchHistory example_client ''wf-1'' = Inr (example_history ''wf-1'')"
  "fetchHistory example_client ''wf-2'' = Inl (ErrorInstance ''Error'' ''Workflow not found'' None)"
  "fetchHistory example_client ''wf-3'' = Inr (example_history ''wf-3'')"
  by (simp_all add: example_client_def)

lemma broken_fetches: "fetchHistory broken_client w = Inr (example_history w)"
  by (simp add: broken_client_def)

lemma example_listing_prefix:
  "listHistories example_client ''WorkflowType=X'' =
     Inr (seq_prepend [example_history ''wf-1'', example_history ''wf-2'', example_history ''wf-3'']
            SeqEnd)"
  by (simp add: example_client_def seq_of_list_def)

theorem cap_on_each_source_witness:
  "(0::int) \<le> 2
   \<and> glob example_host ''histories/*.json'' = Inr [''/h/bad.json'', ''/h/one.json'', ''/h/two.json'']
   \<and> listHistories example_client ''WorkflowType=X'' =
       Inr (seq_of_list [example_history ''wf-1'', example_history ''wf-2'', example_history ''wf-3''])
   \<and> filesRead (fst (fetchFromFiles example_host ''histories/*.json'' 2))
       = [''/h/bad.json'', ''/h/one.json'']
   \<and> snd (fetchFromFiles example_host ''histories/*.json'' 2) = Inr [example_history ''/h/one.json'']
   \<and> Warning (LimitingFiles 2 3) \<in> set (fst (fetchFromFiles example_host ''histories/*.json'' 2))
   \<and> snd (fetchByIds broken_client [''wf-1'', ''wf-2'', ''wf-3''] 2)
       = Inr [example_history ''wf-1'', example_history ''wf-2'']
   \<and> Warning (LimitingIds 2 3) \<in> set (fst (fetchByIds broken_client [''wf-1'', ''wf-2'', ''wf-3''] 2))
   \<and> snd (fetchByQuery example_client ''WorkflowType=X'' 2)
       = Inr [example_history ''wf-1'', example_history ''wf-2'']
   \<and> Warning (MaxReached 2) \<in> set (fst (fetchByQuery example_client ''WorkflowType=X'' 2))
   \<and> callsOf (fst (fetchByQuery example_client ''WorkflowType=X'' 2))
       = [ListCall ''WorkflowType=X'', NextHistoryCall, NextHistoryCall, NextHistoryCall]
   \<and> snd (fetchByQuery example_client ''WorkflowType=X'' 100)
       = Inr [example_history ''wf-1'', example_history ''wf-2'', example_history ''wf-3'']
   \<and> Warning (MaxReached 100) \<notin> set (fst (fetchByQuery example_client ''WorkflowType=X'' 100))
   \<and> snd (fetchFromFiles example_host ''histories/*.json'' 100)
       = Inr [example_history ''/h/one.json'', example_history ''/h/two.json'']
   \<and> Warning (LimitingFiles 100 3)
       \<notin> set (fst (fetchFromFiles example_host ''histories/*.json'' 100))"
  using cap_on_each_source [of 2 example_host "''histories/*.json''"
          "[''/h/bad.json'', ''/h/one.json'', ''/h/two.json'']" example_client "''WorkflowType=X''"
          "[example_history ''wf-1'', example_history ''wf-2'', example_history ''wf-3'']"
          broken_client "[''wf-1'', ''wf-2'', ''wf-3'']"
          example_client "''WorkflowType=X''"
          "[example_history ''wf-1'', example_history ''wf-2'', example_history ''wf-3'']" SeqEnd]
        cap_on_each_source [of 100 example_host "''histories/*.json''"
          "[''/h/bad.json'', ''/h/one.json'', ''/h/two.json'']" example_client "''WorkflowType=X''"
          "[example_history ''wf-1'', example_history ''wf-2'', example_history ''wf-3'']"
          broken_client "[''wf-1'', ''wf-2'', ''wf-3'']"
          example_client "''WorkflowType=X''"
          "[example_history ''wf-1'', example_history ''wf-2'', example_history ''wf-3'']" SeqEnd]
  by (simp add: example_glob example_listing example_loads broken_fetches numeral_3_eq_3
        seq_of_list_def)

text \<open>
  Three files match and \<open>maxHistories\<close> is 2, but the first file cannot be read: one
  history is returned, not the first two.
\<close>

theorem cap_counterexample:
  "glob example_host ''histories/*.json'' = Inr [''/h/bad.json'', ''/h/one.json'', ''/h/two.json'']
   \<and> snd (fetchFromFiles example_host ''histories/*.json'' 2) = Inr [example_history ''/h/one.json'']
   \<and> snd (fetchFromFiles example_host ''histories/*.json'' 2)
       \<noteq> Inr [example_history ''/h/bad.json'', example_history ''/h/one.json'']
   \<and> length [example_history ''/h/one.json''] \<noteq> (2::nat)"
  by (simp add: fetchFromFiles_result example_glob slice0_def example_loads example_history_def)

section \<open>Items that fail to load\<close>

text \<open>
  C5. On the file path (the pattern having been expanded) and on the identifier path, let
  the batch, that is the matched files or the identifiers after the cap, contain an item
  that fails to load. Then selection still returns normally; the result is the histories
  of the items before the bad one that load followed by those of the items after it that
  load, in the order of the batch; every item of the batch is read or fetched, the ones
  after the bad item included; and a warning with the item and the cause is emitted.
\<close>

theorem bad_item_is_skipped:
  assumes files: "glob h p = Inr files"
    and batch: "slice0 files k = pre @ bad # post"
    and bad: "loadFile h bad = Inl t"
    and wbatch: "slice0 wids k = wpre @ wbad # wpost"
    and wbad: "fetchHistory c wbad = Inl wt"
  shows "snd (fetchFromFiles h p k)
           = Inr (successes (loadFile h) pre @ successes (loadFile h) post)
       \<and> filesRead (fst (fetchFromFiles h p k)) = pre @ bad # post
       \<and> Warning (LoadFailed bad (errorMessageOf t)) \<in> set (fst (fetchFromFiles h p k))
       \<and> snd (fetchByIds c wids k)
           = Inr (successes (fetchHistory c) wpre @ successes (fetchHistory c) wpost)
       \<and> idsFetched (fst (fetchByIds c wids k)) = wpre @ wbad # wpost
       \<and> Warning (FetchFailed wbad (errorMessageOf wt)) \<in> set (fst (fetchByIds c wids k))"
proof -
  have nonempty: "files \<noteq> []"
    using batch by (auto simp: slice0_def)
  have f1: "snd (fetchFromFiles h p k)
           = Inr (successes (loadFile h) pre @ successes (loadFile h) post)"
    using files batch bad by (simp add: fetchFromFiles_result successes_append)
  have f2: "filesRead (fst (fetchFromFiles h p k)) = pre @ bad # post"
    using fetchFromFiles_reads [OF files, of k] batch by simp
  have "LoadFailed bad (errorMessageOf t) \<in> set (failures LoadFailed (loadFile h) (slice0 files k))"
    by (rule failures_mem) (simp_all add: batch bad)
  then have f3: "Warning (LoadFailed bad (errorMessageOf t)) \<in> set (fst (fetchFromFiles h p k))"
    using nonempty by (simp add: warningsOf_set fetchFromFiles_warnings [OF files])
  have i1: "snd (fetchByIds c wids k)
           = Inr (successes (fetchHistory c) wpre @ successes (fetchHistory c) wpost)"
    using wbatch wbad by (simp add: fetchByIds_result successes_append)
  have i2: "idsFetched (fst (fetchByIds c wids k)) = wpre @ wbad # wpost"
    using wbatch by (simp add: fetchByIds_ids)
  have "FetchFailed wbad (errorMessageOf wt)
          \<in> set (failures FetchFailed (fetchHistory c) (slice0 wids k))"
    by (rule failures_mem) (simp_all add: wbatch wbad)
  then have i3: "Warning (FetchFailed wbad (errorMessageOf wt)) \<in> set (fst (fetchByIds c wids k))"
    by (simp add: warningsOf_set fetchByIds_warnings)
  show ?thesis using f1 f2 f3 i1 i2 i3 by blast
qed

theorem bad_item_is_skipped_witness:
  "glob example_host ''histories/*.json'' = Inr [''/h/bad.json'', ''/h/one.json'', ''/h/two.json'']
   \<and> slice0 [''/h/bad.json'', ''/h/one.json'', ''/h/two.json''] 100
       = [] @ ''/h/bad.json'' # [''/h/one.json'', ''/h/two.json'']
   \<and> loadFile example_host ''/h/bad.json'' = Inl (ErrorInstance ''Error'' ''File not found'' None)
   \<and> slice0 [''wf-1'', ''wf-2'', ''wf-3''] 100 = [''wf-1''] @ ''wf-2'' # [''wf-3'']
   \<and> fetchHistory example_client ''wf-2'' = Inl (ErrorInstance ''Error'' ''Workflow not found'' None)
   \<and> snd (fetchFromFiles example_host ''histories/*.json'' 100)
       = Inr [example_history ''/h/one.json'', example_history ''/h/two.json'']
   \<and> Warning (LoadFailed ''/h/bad.json'' ''File not found'')
       \<in> set (fst (fetchFromFiles example_host ''histories/*.json'' 100))
   \<and> snd (fetchByIds example_client [''wf-1'', ''wf-2'', ''wf-3''] 100)
       = Inr [example_history ''wf-1'', example_history ''wf-3'']
   \<and> Warning (FetchFailed ''wf-2'' ''Workflow not found'')
       \<in> set (fst (fetchByIds example_client [''wf-1'', ''wf-2'', ''wf-3''] 100))"
  using bad_item_is_skipped [of example_host "''histories/*.json''"
          "[''/h/bad.json'', ''/h/one.json'', ''/h/two.json'']" 100 "[]" "''/h/bad.json''"
          "[''/h/one.json'', ''/h/two.json'']" "ErrorInstance ''Error'' ''File not found'' None"
          "[''wf-1'', ''wf-2'', ''wf-3'']" "[''wf-1'']" "''wf-2''" "[''wf-3'']"
          example_client "ErrorInstance ''Error'' ''Workflow not found'' None"]
  by (simp add: example_glob example_loads example_fetches slice0_def)

lemma successes_with_failure:
  "bad \<in> set xs \<Longrightarrow> f bad = Inl t \<Longrightarrow> length (successes f xs) < length xs"
proof (induction xs)
  case Nil
  then show ?case by simp
next
  case (Cons x xs)
  show ?case
  proof (cases "f x")
    case (Inl a)
    then show ?thesis
      using successes_length_le [of f xs] by simp
  next
    case (Inr b)
    then have "bad \<in> set xs" using Cons.prems by auto
    then show ?thesis using Cons.IH Cons.prems Inr by simp
  qed
qed

text \<open>
  C10. On the file path with \<open>maxHistories = k \<ge> 0\<close>, the files read are exactly the
  first \<open>k\<close> matches, and the result is made of those of them that load. So when one of
  the first \<open>k\<close> matches fails to load, fewer than \<open>k\<close> histories are returned, however
  many loadable files match after the first \<open>k\<close>: the witness below has two loadable
  matches for \<open>k = 2\<close> and returns one history.
\<close>

theorem truncation_before_reading:
  assumes k: "0 \<le> k"
    and files: "glob h p = Inr files"
    and among: "bad \<in> set (take (nat k) files)"
    and bad: "loadFile h bad = Inl t"
  shows "filesRead (fst (fetchFromFiles h p k)) = take (nat k) files
       \<and> snd (fetchFromFiles h p k) = Inr (successes (loadFile h) (take (nat k) files))
       \<and> int (length (successes (loadFile h) (take (nat k) files))) < k"
proof -
  have f1: "filesRead (fst (fetchFromFiles h p k)) = take (nat k) files"
    using fetchFromFiles_reads [OF files, of k] k by (simp add: slice0_nonneg)
  have f2: "snd (fetchFromFiles h p k) = Inr (successes (loadFile h) (take (nat k) files))"
    using k files by (simp add: fetchFromFiles_result slice0_nonneg)
  have "length (successes (loadFile h) (take (nat k) files)) < length (take (nat k) files)"
    using among bad by (rule successes_with_failure)
  then have "length (successes (loadFile h) (take (nat k) files)) < nat k"
    by simp
  then have f3: "int (length (successes (loadFile h) (take (nat k) files))) < k"
    using k by linarith
  show ?thesis using f1 f2 f3 by blast
qed

theorem truncation_before_reading_witness:
  "(0::int) \<le> 2
   \<and> glob example_host ''histories/*.json'' = Inr [''/h/bad.json'', ''/h/one.json'', ''/h/two.json'']
   \<and> ''/h/bad.json'' \<in> set (take (nat 2) [''/h/bad.json'', ''/h/one.json'', ''/h/two.json''])
   \<and> loadFile example_host ''/h/bad.json'' = Inl (ErrorInstance ''Error'' ''File not found'' None)
   \<and> successes (loadFile example_host) [''/h/bad.json'', ''/h/one.json'', ''/h/two.json'']
       = [example_history ''/h/one.json'', example_history ''/h/two.json'']
   \<and> filesRead (fst (fetchFromFiles example_host ''histories/*.json'' 2))
       = [''/h/bad.json'', ''/h/one.json'']
   \<and> snd (fetchFromFiles example_host ''histories/*.json'' 2) = Inr [example_history ''/h/one.json'']"
  using truncation_before_reading [of 2 example_host "''histories/*.json''"
          "[''/h/bad.json'', ''/h/one.json'', ''/h/two.json'']" "''/h/bad.json''"
          "ErrorInstance ''Error'' ''File not found'' None"]
  by (simp add: example_glob example_loads)

section \<open>A failing listing\<close>

lemma fetchByQuery_listing_fails:
  "listHistories c q = Inl t \<Longrightarrow>
   fetchByQuery c q k =
     ([ListCall q, ErrorLog (''Failed to fetch histories: '' @ errorMessageOf t)],
      Inl (FetchError (errorMessageOf t)))"
  by (simp add: fetchByQuery_def)

lemma fetchByQuery_iteration_fails:
  "listHistories c q = Inr (seq_prepend xs (SeqThrow t)) \<Longrightarrow>
   xs = [] \<or> int (length xs) \<le> k \<Longrightarrow>
   snd (fetchByQuery c q k) = Inl (FetchError (errorMessageOf t))"
  using queryLoop_throws [of xs k 0 t] by (simp add: fetchByQuery_result)

lemma fetchByQuery_errors:
  "snd (fetchByQuery c q k) = Inl e \<Longrightarrow> \<exists>m. e = FetchError m"
  by (auto simp: fetchByQuery_result split: sum.splits)

lemma run_fetch_fails:
  fixes wld :: "'w world"
  assumes "parseInputs (w_inputs wld) = (evs1, Inr config)"
    and "skipBuild (build config) \<or> w_buildWorkflows wld config = None"
    and "createTemporalConnection (w_connect wld) config = Inr cl"
    and "fetchHistories (w_host wld) config cl = (evs2, Inl e)"
  shows "run wld w0 = run_catch (evs1 @ evs2) (fetch_error_message e) w0"
  using assms by (auto simp: run_def)

text \<open>
  C6. On the custom-query path and on the task-queue path (the query being the one given,
  or \<open>TaskQueue="name"\<close>), let the listing call throw \<open>t\<close>, or let the lazy sequence
  throw \<open>t\<close> at a pull the loop makes: after no history, or after at most \<open>maxHistories\<close>
  of them. Then \<open>fetchByQuery\<close> and \<open>fetchHistories\<close> end with the fetch error that
  wraps the message of \<open>t\<close>, with no histories at all; and the run of the action fails
  with the message \<open>Failed to fetch workflow histories: \<close> followed by that of \<open>t\<close>,
  without calling \<open>runReplayTests\<close>, without setting any output, and leaving the replay
  engine in its starting state.
\<close>

theorem listing_failure_aborts:
  fixes wld :: "'w world"
  assumes failure: "listHistories c q = Inl t
                    \<or> (listHistories c q = Inr (seq_prepend xs (SeqThrow t))
                        \<and> (xs = [] \<or> int (length xs) \<le> maxHistories (selection config)))"
    and parsed: "parseInputs (w_inputs wld) = (evs, Inr config)"
    and built: "skipBuild (build config) \<or> w_buildWorkflows wld config = None"
    and connected: "createTemporalConnection (w_connect wld) config = Inr (Some c)"
    and no_ids: "workflowIds (selection config) = []"
    and chosen: "(taskQueue (selection config) \<noteq> []
                    \<and> q = taskQueueQuery (taskQueue (selection config)))
                 \<or> (taskQueue (selection config) = [] \<and> query (selection config) \<noteq> []
                    \<and> q = query (selection config))"
  shows "snd (fetchByQuery c q (maxHistories (selection config)))
           = Inl (FetchError (errorMessageOf t))
       \<and> snd (fetchHistories (w_host wld) config (Some c)) = Inl (FetchError (errorMessageOf t))
       \<and> run_setFailed (run wld w0)
           = Some (''Failed to fetch workflow histories: '' @ errorMessageOf t)
       \<and> run_replayed (run wld w0) = None
       \<and> run_outputs (run wld w0) = None
       \<and> run_worker (run wld w0) = w0"
proof -
  let ?k = "maxHistories (selection config)"
  have q: "snd (fetchByQuery c q ?k) = Inl (FetchError (errorMessageOf t))"
    using failure
  proof
    assume "listHistories c q = Inl t"
    then show ?thesis by (simp add: fetchByQuery_listing_fails)
  next
    assume "listHistories c q = Inr (seq_prepend xs (SeqThrow t))
              \<and> (xs = [] \<or> int (length xs) \<le> ?k)"
    then show ?thesis using fetchByQuery_iteration_fails by blast
  qed
  have path: "historyPath (selection config) = []"
    using connected by (auto simp: createTemporalConnection_def split: if_splits sum.splits)
  have same: "fetchHistories (w_host wld) config (Some c) = fetchByQuery c q ?k"
    using path no_ids chosen by (auto simp: fetchHistories_def Let_def fetchByTaskQueue_def)
  then have f: "snd (fetchHistories (w_host wld) config (Some c))
                  = Inl (FetchError (errorMessageOf t))"
    using q by simp
  then obtain evs2 where "fetchHistories (w_host wld) config (Some c)
                            = (evs2, Inl (FetchError (errorMessageOf t)))"
    by (cases "fetchHistories (w_host wld) config (Some c)") auto
  then have "run wld w0
               = run_catch (evs @ evs2) (fetch_error_message (FetchError (errorMessageOf t))) w0"
    using parsed built connected by (rule run_fetch_fails [rotated 3])
  then show ?thesis using q f by (simp add: run_catch_def)
qed

lemma example_getInput:
  "getInput (example_inputs kvs) name = (case map_of kvs name of Some v \<Rightarrow> v | None \<Rightarrow> [])"
  "getRequiredInput (example_inputs kvs) name =
     (case map_of kvs name of
        Some v \<Rightarrow> Inr v
      | None \<Rightarrow> Inl (ErrorInstance ''Error'' (''Input required and not supplied: '' @ name) None))"
  "parseInt (example_inputs kvs) s =
     (if s = ''100'' then Some 100 else if s = ''2'' then Some 2 else None)"
  "trimString (example_inputs kvs) = ascii_trim"
  by (simp_all add: example_inputs_def)

lemma parse_query_example:
  "parseInputs (example_inputs ((''workflow-query'', ''INVALID_QUERY'') # common_inputs))
     = ([], Inr (example_config (example_selection [] [] [] ''INVALID_QUERY'' 100)))"
  by (simp add: parseInputs_def Let_def example_getInput common_inputs_def inlineOrFile_def
        orNull_def example_config_def example_selection_def selectionMethods_def
        parsedMaxHistories_def)

lemma parse_queue_example:
  "parseInputs (example_inputs ((''workflow-task-queue'', ''my-queue'') # common_inputs))
     = ([], Inr (example_config (example_selection [] [] ''my-queue'' [] 100)))"
  by (simp add: parseInputs_def Let_def example_getInput common_inputs_def inlineOrFile_def
        orNull_def example_config_def example_selection_def selectionMethods_def
        parsedMaxHistories_def)

lemma example_config_fields:
  "selection (example_config sel) = sel"
  "skipBuild (build (example_config sel)) = False"
  "historyPath (example_selection p wids tq q k) = p"
  "workflowIds (example_selection p wids tq q k) = wids"
  "taskQueue (example_selection p wids tq q k) = tq"
  "query (example_selection p wids tq q k) = q"
  "maxHistories (example_selection p wids tq q k) = k"
  by (simp_all add: example_config_def example_selection_def)

lemma example_world_fields:
  "w_inputs (example_world kvs c) = example_inputs kvs"
  "w_buildWorkflows (example_world kvs c) config = None"
  "w_connect (example_world kvs c) config = Inr c"
  "w_host (example_world kvs c) = example_host"
  by (simp_all add: example_world_def)

theorem listing_failure_aborts_witness:
  "listHistories example_client ''INVALID_QUERY''
     = Inl (ErrorInstance ''Error'' ''Invalid query syntax'' None)
   \<and> parseInputs (w_inputs (example_world ((''workflow-query'', ''INVALID_QUERY'') # common_inputs)
                               example_client))
       = ([], Inr (example_config (example_selection [] [] [] ''INVALID_QUERY'' 100)))
   \<and> run_setFailed (run (example_world ((''workflow-query'', ''INVALID_QUERY'') # common_inputs)
                            example_client) 0)
       = Some ''Failed to fetch workflow histories: Invalid query syntax''
   \<and> run_replayed (run (example_world ((''workflow-query'', ''INVALID_QUERY'') # common_inputs)
                           example_client) 0) = None
   \<and> run_worker (run (example_world ((''workflow-query'', ''INVALID_QUERY'') # common_inputs)
                         example_client) 0) = 0
   \<and> listHistories broken_client (taskQueueQuery ''my-queue'')
       = Inr (seq_prepend [example_history ''wf-1''] (SeqThrow (OtherThrown None ''stream closed'')))
   \<and> run_setFailed (run (example_world ((''workflow-task-queue'', ''my-queue'') # common_inputs)
                            broken_client) 0)
       = Some ''Failed to fetch workflow histories: stream closed''
   \<and> run_replayed (run (example_world ((''workflow-task-queue'', ''my-queue'') # common_inputs)
                           broken_client) 0) = None"
  using listing_failure_aborts
          [of example_client "''INVALID_QUERY''" "ErrorInstance ''Error'' ''Invalid query syntax'' None"
              "[]" "example_config (example_selection [] [] [] ''INVALID_QUERY'' 100)"
              "example_world ((''workflow-query'', ''INVALID_QUERY'') # common_inputs) example_client"
              "[]" 0]
        listing_failure_aborts
          [of broken_client "taskQueueQuery ''my-queue''" "OtherThrown None ''stream closed''"
              "[example_history ''wf-1'']"
              "example_config (example_selection [] [] ''my-queue'' [] 100)"
              "example_world ((''workflow-task-queue'', ''my-queue'') # common_inputs) broken_client"
              "[]" 0]
  by (simp add: example_world_fields example_config_fields parse_query_example
        parse_queue_example createTemporalConnection_def example_client_def broken_client_def)

section \<open>Priority among the populated descriptors\<close>

lemma split_on_nonempty: "split_on c s \<noteq> []"
  by (induction s) (auto split: list.splits)

lemma parseInputs_selection:
  assumes "parseInputs inp = (evs, Inr config)"
  shows "historyPath (selection config) = getInput inp ''workflow-history-path''"
    and "workflowIds (selection config) = [] \<longleftrightarrow> getInput inp ''workflow-ids'' = []"
    and "taskQueue (selection config) = getInput inp ''workflow-task-queue''"
    and "query (selection config) = getInput inp ''workflow-query''"
    and "1 < length (selectionMethods inp) \<Longrightarrow> Warning MultipleMethods \<in> set evs"
    and "1 \<le> maxHistories (selection config)"
proof -
  note defs = parseInputs_def Let_def
  obtain tlsCert where
    tc: "inlineOrFile inp (getInput inp ''temporal-tls-cert'')
               (getInput inp ''temporal-tls-cert-path'') = Inr tlsCert"
    using assms
    by (cases "inlineOrFile inp (getInput inp ''temporal-tls-cert'')
               (getInput inp ''temporal-tls-cert-path'')") (simp_all add: parseInputs_def)
  obtain tlsKey where
    tk: "inlineOrFile inp (getInput inp ''temporal-tls-key'')
               (getInput inp ''temporal-tls-key-path'') = Inr tlsKey"
    using assms tc
    by (cases "inlineOrFile inp (getInput inp ''temporal-tls-key'')
               (getInput inp ''temporal-tls-key-path'')") (simp_all add: parseInputs_def)
  have some: "selectionMethods inp \<noteq> []"
  proof
    assume "selectionMethods inp = []"
    then show False using assms tc tk by (simp add: defs)
  qed
  obtain wPath where wp: "getRequiredInput inp ''workflows-path'' = Inr wPath"
    using assms tc tk some
    by (cases "getRequiredInput inp ''workflows-path''") (simp_all add: defs)
  have big: "\<not> parsedMaxHistories inp < 1"
  proof
    assume "parsedMaxHistories inp < 1"
    then show False using assms tc tk some wp by (simp add: defs)
  qed
  have both: "evs = (if length (selectionMethods inp) > 1 then [Warning MultipleMethods] else [])
                    @ (if parsedMaxHistories inp > 10000 then [Warning VeryLarge] else [])
            \<and> selection config =
              \<lparr> historyPath = getInput inp ''workflow-history-path'',
                workflowIds = (if getInput inp ''workflow-ids'' \<noteq> []
                               then map (trimString inp) (split_on CHR '','' (getInput inp ''workflow-ids''))
                               else []),
                taskQueue = getInput inp ''workflow-task-queue'',
                query = getInput inp ''workflow-query'',
                maxHistories = parsedMaxHistories inp \<rparr>"
    using assms tc tk some wp big by (simp add: defs) force
  then have evs: "evs = (if length (selectionMethods inp) > 1 then [Warning MultipleMethods]
                         else [])
                    @ (if parsedMaxHistories inp > 10000 then [Warning VeryLarge] else [])"
    and cfg: "selection config =
              \<lparr> historyPath = getInput inp ''workflow-history-path'',
                workflowIds = (if getInput inp ''workflow-ids'' \<noteq> []
                               then map (trimString inp) (split_on CHR '','' (getInput inp ''workflow-ids''))
                               else []),
                taskQueue = getInput inp ''workflow-task-queue'',
                query = getInput inp ''workflow-query'',
                maxHistories = parsedMaxHistories inp \<rparr>"
    by simp_all
  show "historyPath (selection config) = getInput inp ''workflow-history-path''"
    and "taskQueue (selection config) = getInput inp ''workflow-task-queue''"
    and "query (selection config) = getInput inp ''workflow-query''"
    by (simp_all add: cfg)
  show "workflowIds (selection config) = [] \<longleftrightarrow> getInput inp ''workflow-ids'' = []"
    by (simp add: cfg split_on_nonempty)
  show "1 \<le> maxHistories (selection config)"
    using big by (simp add: cfg)
  show "1 < length (selectionMethods inp) \<Longrightarrow> Warning MultipleMethods \<in> set evs"
    unfolding evs by simp
qed

lemma populated_count:
  assumes "parseInputs inp = (evs, Inr config)"
  shows "length (spec_populated (selection config)) = length (selectionMethods inp)"
  using parseInputs_selection(1-4) [OF assms] by (simp add: spec_populated_def selectionMethods_def)

lemma fetchHistories_priority:
  "spec_populated (selection config) \<noteq> [] \<Longrightarrow>
   fetchHistories h config cl
     = spec_fetchFrom h cl (maxHistories (selection config)) (hd (spec_populated (selection config)))"
  by (cases cl) (auto simp: fetchHistories_def Let_def spec_populated_def fetchByTaskQueue_def)

lemma loadFiles_belong: "list_all (belongsTo (FilePattern p)) (fst (loadFiles h fs))"
  by (induction fs) (auto split: prod.splits sum.splits)

lemma fetchEach_belong:
  "set ws \<subseteq> set wids \<Longrightarrow> list_all (belongsTo (IdList wids)) (fst (fetchEach c ws))"
  by (induction ws) (auto split: prod.splits sum.splits)

lemma queryLoop_belong:
  "list_all (\<lambda>e. e = NextHistoryCall \<or> (\<exists>w. e = Warning w)) (fst (queryLoop k count s))"
proof (induction k count s rule: queryLoop.induct)
  case (1 maxH count s)
  show ?case
  proof (cases s)
    case SeqEnd
    then show ?thesis by (subst queryLoop.simps) simp
  next
    case (SeqYield history rest)
    show ?thesis
    proof (cases "int count \<ge> maxH")
      case True
      then show ?thesis using SeqYield by (subst queryLoop.simps) simp
    next
      case False
      with "1.IH" [OF SeqYield False] SeqYield show ?thesis
        by (subst queryLoop.simps) (auto split: prod.splits)
    qed
  next
    case (SeqThrow t)
    then show ?thesis by (subst queryLoop.simps) simp
  qed
qed

lemma loadFiles_belong_pair:
  "loadFiles h fs = (evs, hs) \<Longrightarrow> list_all (belongsTo (FilePattern p)) evs"
  using loadFiles_belong [of p h fs] by simp

lemma fetchFromFiles_belong: "list_all (belongsTo (FilePattern p)) (fst (fetchFromFiles h p k))"
  by (auto simp: fetchFromFiles_def Let_def loadFiles_belong_pair split: sum.splits prod.splits)

lemma fetchByIds_belong: "list_all (belongsTo (IdList wids)) (fst (fetchByIds c wids k))"
  using fetchEach_belong [of "slice0 wids k" wids c] set_take_subset [of _ wids]
  by (auto simp: fetchByIds_def Let_def slice0_def split: prod.splits)

lemma queryLoop_belong_pair:
  assumes "queryLoop k count s = (evs, r)"
    and "d = CustomQuery q \<or> d = TaskQueueName tq"
  shows "list_all (belongsTo d) evs"
proof -
  have "list_all (\<lambda>e. e = NextHistoryCall \<or> (\<exists>w. e = Warning w)) evs"
    using queryLoop_belong [of k count s] assms(1) by simp
  then show ?thesis
    using assms(2) by (auto simp: list_all_iff)
qed

lemma fetchByQuery_belong:
  assumes "d = CustomQuery q \<or> (d = TaskQueueName tq \<and> q = taskQueueQuery tq)"
  shows "list_all (belongsTo d) (fst (fetchByQuery c q k))"
proof (cases "listHistories c q")
  case (Inl t)
  then show ?thesis using assms by (auto simp: fetchByQuery_def)
next
  case (Inr s)
  obtain evs r where loop: "queryLoop k 0 s = (evs, r)"
    by (cases "queryLoop k 0 s") auto
  have "list_all (belongsTo d) evs"
    using loop assms by (auto intro: queryLoop_belong_pair)
  then show ?thesis
    using Inr loop assms by (cases r) (auto simp: fetchByQuery_def)
qed

lemma fetchFrom_belong: "list_all (belongsTo d) (fst (spec_fetchFrom h cl k d))"
  by (cases "(h, cl, k, d)" rule: spec_fetchFrom.cases)
     (simp_all add: fetchFromFiles_belong fetchByIds_belong fetchByQuery_belong)

lemma loadFiles_calls: "callsOf (fst (loadFiles h fs)) = map ReadFileCall fs"
  by (induction fs) (auto split: prod.splits sum.splits)

lemma fetchEach_calls: "callsOf (fst (fetchEach c ws)) = map FetchHistoryCall ws"
  by (induction ws) (auto split: prod.splits sum.splits)

lemma callsOf_all_next:
  "list_all (\<lambda>e. e = NextHistoryCall \<or> (\<exists>w. e = Warning w)) evs \<Longrightarrow>
   list_all (\<lambda>e. e = NextHistoryCall) (callsOf evs)"
  by (induction evs rule: callsOf.induct) auto

lemma fetchFromFiles_calls:
  "take 1 (fst (fetchFromFiles h p k)) = [GlobCall p]
   \<and> (case glob h p of
         Inl t \<Rightarrow> fetchFromFiles h p k = ([GlobCall p], Inl (Uncaught t))
       | Inr files \<Rightarrow>
           callsOf (fst (fetchFromFiles h p k)) = GlobCall p # map ReadFileCall (slice0 files k)
           \<and> snd (fetchFromFiles h p k) = Inr (successes (loadFile h) (slice0 files k)))"
proof (cases "glob h p")
  case (Inl t)
  then show ?thesis by (simp add: fetchFromFiles_def)
next
  case (Inr files)
  have "callsOf (fst (fetchFromFiles h p k)) = GlobCall p # map ReadFileCall (slice0 files k)"
    using Inr loadFiles_calls [of h "slice0 files k"]
    by (auto simp: fetchFromFiles_def Let_def callsOf_append slice0_def split: prod.splits)
  moreover have "take 1 (fst (fetchFromFiles h p k)) = [GlobCall p]"
    using Inr by (auto simp: fetchFromFiles_def Let_def split: prod.splits)
  ultimately show ?thesis using Inr by (simp add: fetchFromFiles_result)
qed

lemma fetchByIds_calls:
  "callsOf (fst (fetchByIds c ws k)) = map FetchHistoryCall (slice0 ws k)"
  using fetchEach_calls [of c "slice0 ws k"]
  by (auto simp: fetchByIds_def Let_def callsOf_append split: prod.splits)

lemma fetchByQuery_calls:
  "take 1 (fst (fetchByQuery c q k)) = [ListCall q]
   \<and> list_all (\<lambda>e. e = NextHistoryCall) (drop 1 (callsOf (fst (fetchByQuery c q k))))"
proof (cases "listHistories c q")
  case (Inl t)
  then show ?thesis by (simp add: fetchByQuery_def)
next
  case (Inr s)
  obtain evs r where loop: "queryLoop k 0 s = (evs, r)"
    by (cases "queryLoop k 0 s") auto
  have "list_all (\<lambda>e. e = NextHistoryCall) (callsOf evs)"
    using queryLoop_belong [of k 0 s] loop by (simp add: callsOf_all_next)
  then show ?thesis
    using Inr loop by (cases r) (auto simp: fetchByQuery_def callsOf_append)
qed

text \<open>
  C3. For every configuration that \<open>parseInputs\<close> returns with more than one descriptor
  populated, \<open>d\<close> being the first of them in the order file pattern, identifiers, task
  queue, query: \<open>parseInputs\<close> has emitted the warning that multiple selection methods
  were provided, and \<open>maxHistories\<close> is at least 1. Selection fetches from \<open>d\<close>: for a
  file pattern it starts by expanding that pattern, reads the first \<open>maxHistories\<close>
  matches and nothing else, and returns those that load (or the failure of the expansion);
  for identifiers it fetches the first \<open>maxHistories\<close> of them through the client and
  nothing else, and returns those that are fetched; for a task queue it starts by listing
  with the query \<open>TaskQueue="name"\<close>, after which it only pulls histories from that
  listing, and returns what the loop collects or the fetch error; for identifiers and
  for a task queue with a \<open>null\<close> client it fails with the client-required error
  without any call. \<open>d\<close> is never the custom query. Every call to the file system or the
  client belongs to \<open>d\<close>: no fetch goes to any of the other descriptors.
\<close>

theorem priority_and_warning:
  assumes parsed: "parseInputs inp = (evs, Inr config)"
    and several: "spec_populated (selection config) = d # d' # others"
  shows "Warning MultipleMethods \<in> set evs
       \<and> 1 \<le> maxHistories (selection config)
       \<and> fetchHistories h config cl = spec_fetchFrom h cl (maxHistories (selection config)) d
       \<and> list_all (belongsTo d) (fst (fetchHistories h config cl))
       \<and> (case d of
            FilePattern pat \<Rightarrow>
              take 1 (fst (fetchHistories h config cl)) = [GlobCall pat]
              \<and> (case glob h pat of
                    Inl t \<Rightarrow> fetchHistories h config cl = ([GlobCall pat], Inl (Uncaught t))
                  | Inr files \<Rightarrow>
                      callsOf (fst (fetchHistories h config cl))
                        = GlobCall pat
                          # map ReadFileCall (take (nat (maxHistories (selection config))) files)
                      \<and> snd (fetchHistories h config cl)
                          = Inr (successes (loadFile h)
                                   (take (nat (maxHistories (selection config))) files)))
          | IdList wids \<Rightarrow>
              (case cl of
                 None \<Rightarrow> fetchHistories h config cl = ([], Inl EngineRequiredError)
               | Some c \<Rightarrow>
                   callsOf (fst (fetchHistories h config cl))
                     = map FetchHistoryCall (take (nat (maxHistories (selection config))) wids)
                   \<and> snd (fetchHistories h config cl)
                       = Inr (successes (fetchHistory c)
                                (take (nat (maxHistories (selection config))) wids)))
          | TaskQueueName tq \<Rightarrow>
              (case cl of
                 None \<Rightarrow> fetchHistories h config cl = ([], Inl EngineRequiredError)
               | Some c \<Rightarrow>
                   take 1 (fst (fetchHistories h config cl)) = [ListCall (taskQueueQuery tq)]
                   \<and> list_all (\<lambda>e. e = NextHistoryCall)
                        (drop 1 (callsOf (fst (fetchHistories h config cl))))
                   \<and> snd (fetchHistories h config cl)
                       = (case listHistories c (taskQueueQuery tq) of
                            Inl t \<Rightarrow> Inl (FetchError (errorMessageOf t))
                          | Inr s \<Rightarrow>
                              (case snd (queryLoop (maxHistories (selection config)) 0 s) of
                                 Inl t \<Rightarrow> Inl (FetchError (errorMessageOf t))
                               | Inr hs \<Rightarrow> Inr hs)))
          | CustomQuery q \<Rightarrow> False)"
proof -
  let ?k = "maxHistories (selection config)"
  have more: "1 < length (spec_populated (selection config))"
    using several by simp
  have w: "Warning MultipleMethods \<in> set evs"
    using more parseInputs_selection(5) [OF parsed] populated_count [OF parsed] by simp
  have k: "1 \<le> ?k"
    by (rule parseInputs_selection(6) [OF parsed])
  then have slice: "\<And>xs::string list. slice0 xs ?k = take (nat ?k) xs"
    by (simp add: slice0_def)
  have "spec_populated (selection config) \<noteq> []" "hd (spec_populated (selection config)) = d"
    using several by simp_all
  then have f: "fetchHistories h config cl = spec_fetchFrom h cl ?k d"
    using fetchHistories_priority [of config h cl] by simp
  have b: "list_all (belongsTo d) (fst (fetchHistories h config cl))"
    using f fetchFrom_belong by simp
  have notq: "\<And>q. d \<noteq> CustomQuery q"
    using several by (auto simp: spec_populated_def split: if_splits)
  have detail: "case d of
            FilePattern pat \<Rightarrow>
              take 1 (fst (fetchHistories h config cl)) = [GlobCall pat]
              \<and> (case glob h pat of
                    Inl t \<Rightarrow> fetchHistories h config cl = ([GlobCall pat], Inl (Uncaught t))
                  | Inr files \<Rightarrow>
                      callsOf (fst (fetchHistories h config cl))
                        = GlobCall pat # map ReadFileCall (take (nat ?k) files)
                      \<and> snd (fetchHistories h config cl)
                          = Inr (successes (loadFile h) (take (nat ?k) files)))
          | IdList wids \<Rightarrow>
              (case cl of
                 None \<Rightarrow> fetchHistories h config cl = ([], Inl EngineRequiredError)
               | Some c \<Rightarrow>
                   callsOf (fst (fetchHistories h config cl))
                     = map FetchHistoryCall (take (nat ?k) wids)
                   \<and> snd (fetchHistories h config cl)
                       = Inr (successes (fetchHistory c) (take (nat ?k) wids)))
          | TaskQueueName tq \<Rightarrow>
              (case cl of
                 None \<Rightarrow> fetchHistories h config cl = ([], Inl EngineRequiredError)
               | Some c \<Rightarrow>
                   take 1 (fst (fetchHistories h config cl)) = [ListCall (taskQueueQuery tq)]
                   \<and> list_all (\<lambda>e. e = NextHistoryCall)
                        (drop 1 (callsOf (fst (fetchHistories h config cl))))
                   \<and> snd (fetchHistories h config cl)
                       = (case listHistories c (taskQueueQuery tq) of
                            Inl t \<Rightarrow> Inl (FetchError (errorMessageOf t))
                          | Inr s \<Rightarrow>
                              (case snd (queryLoop ?k 0 s) of
                                 Inl t \<Rightarrow> Inl (FetchError (errorMessageOf t))
                               | Inr hs \<Rightarrow> Inr hs)))
          | CustomQuery q \<Rightarrow> False"
  proof (cases d)
    case (FilePattern pat)
    then show ?thesis
      using f fetchFromFiles_calls [of h pat ?k] by (simp add: slice split: sum.splits)
  next
    case (IdList wids)
    then show ?thesis
      using f by (cases cl) (simp_all add: fetchByIds_calls fetchByIds_result slice)
  next
    case (TaskQueueName tq)
    then show ?thesis
      using f fetchByQuery_calls [of _ "taskQueueQuery tq" ?k]
      by (cases cl) (simp_all add: fetchByQuery_result)
  next
    case (CustomQuery q)
    then show ?thesis using notq by simp
  qed
  show ?thesis using w k f b detail by simp
qed

lemma parse_several_example:
  "parseInputs (example_inputs ((''workflow-ids'', ''wf-1, wf-2'') # (''workflow-task-queue'', ''my-queue'')
                                 # (''workflow-query'', ''WorkflowType=X'') # common_inputs))
     = ([Warning MultipleMethods],
        Inr (example_config (example_selection [] [''wf-1'', ''wf-2''] ''my-queue''
                               ''WorkflowType=X'' 100)))"
  by (simp add: parseInputs_def Let_def example_getInput common_inputs_def inlineOrFile_def
        orNull_def example_config_def example_selection_def selectionMethods_def
        parsedMaxHistories_def ascii_trim_def js_space_def)

lemma parse_files_example:
  "parseInputs (example_inputs ((''workflow-history-path'', ''histories/*.json'')
                                 # (''workflow-query'', ''WorkflowType=X'') # common_inputs))
     = ([Warning MultipleMethods],
        Inr (example_config (example_selection ''histories/*.json'' [] [] ''WorkflowType=X'' 100)))"
  by (simp add: parseInputs_def Let_def example_getInput common_inputs_def inlineOrFile_def
        orNull_def example_config_def example_selection_def selectionMethods_def
        parsedMaxHistories_def)

lemma parse_queue_query_example:
  "parseInputs (example_inputs ((''workflow-task-queue'', ''my-queue'')
                                 # (''workflow-query'', ''INVALID_QUERY'') # common_inputs))
     = ([Warning MultipleMethods],
        Inr (example_config (example_selection [] [] ''my-queue'' ''INVALID_QUERY'' 100)))"
  by (simp add: parseInputs_def Let_def example_getInput common_inputs_def inlineOrFile_def
        orNull_def example_config_def example_selection_def selectionMethods_def
        parsedMaxHistories_def)

theorem priority_and_warning_witness:
  "parseInputs (example_inputs ((''workflow-ids'', ''wf-1, wf-2'') # (''workflow-task-queue'', ''my-queue'')
                                 # (''workflow-query'', ''WorkflowType=X'') # common_inputs))
     = ([Warning MultipleMethods],
        Inr (example_config (example_selection [] [''wf-1'', ''wf-2''] ''my-queue''
                               ''WorkflowType=X'' 100)))
   \<and> spec_populated (example_selection [] [''wf-1'', ''wf-2''] ''my-queue'' ''WorkflowType=X'' 100)
       = IdList [''wf-1'', ''wf-2''] # TaskQueueName ''my-queue'' # [CustomQuery ''WorkflowType=X'']
   \<and> fetchHistories example_host
         (example_config (example_selection [] [''wf-1'', ''wf-2''] ''my-queue''
                            ''WorkflowType=X'' 100))
         (Some example_client)
       = ([FetchHistoryCall ''wf-1'', FetchHistoryCall ''wf-2'',
           Warning (FetchFailed ''wf-2'' ''Workflow not found'')],
          Inr [example_history ''wf-1''])
   \<and> parseInputs (example_inputs ((''workflow-history-path'', ''histories/*.json'')
                                 # (''workflow-query'', ''WorkflowType=X'') # common_inputs))
     = ([Warning MultipleMethods],
        Inr (example_config (example_selection ''histories/*.json'' [] [] ''WorkflowType=X'' 100)))
   \<and> spec_populated (example_selection ''histories/*.json'' [] [] ''WorkflowType=X'' 100)
       = FilePattern ''histories/*.json'' # CustomQuery ''WorkflowType=X'' # []
   \<and> callsOf (fst (fetchHistories example_host
         (example_config (example_selection ''histories/*.json'' [] [] ''WorkflowType=X'' 100))
         None))
       = [GlobCall ''histories/*.json'', ReadFileCall ''/h/bad.json'',
          ReadFileCall ''/h/one.json'', ReadFileCall ''/h/two.json'']
   \<and> snd (fetchHistories example_host
         (example_config (example_selection ''histories/*.json'' [] [] ''WorkflowType=X'' 100))
         None)
       = Inr [example_history ''/h/one.json'', example_history ''/h/two.json'']
   \<and> parseInputs (example_inputs ((''workflow-task-queue'', ''my-queue'')
                                 # (''workflow-query'', ''INVALID_QUERY'') # common_inputs))
     = ([Warning MultipleMethods],
        Inr (example_config (example_selection [] [] ''my-queue'' ''INVALID_QUERY'' 100)))
   \<and> spec_populated (example_selection [] [] ''my-queue'' ''INVALID_QUERY'' 100)
       = TaskQueueName ''my-queue'' # CustomQuery ''INVALID_QUERY'' # []
   \<and> take 1 (fst (fetchHistories example_host
         (example_config (example_selection [] [] ''my-queue'' ''INVALID_QUERY'' 100))
         (Some example_client)))
       = [ListCall (taskQueueQuery ''my-queue'')]
   \<and> snd (fetchHistories example_host
         (example_config (example_selection [] [] ''my-queue'' ''INVALID_QUERY'' 100))
         (Some example_client))
       = Inr [example_history ''wf-1'', example_history ''wf-2'', example_history ''wf-3'']"
proof -
  have p_ids: "spec_populated (selection (example_config
                  (example_selection [] [''wf-1'', ''wf-2''] ''my-queue'' ''WorkflowType=X'' 100)))
       = IdList [''wf-1'', ''wf-2''] # TaskQueueName ''my-queue'' # [CustomQuery ''WorkflowType=X'']"
    and p_files: "spec_populated (selection (example_config
                  (example_selection ''histories/*.json'' [] [] ''WorkflowType=X'' 100)))
       = FilePattern ''histories/*.json'' # CustomQuery ''WorkflowType=X'' # []"
    and p_queue: "spec_populated (selection (example_config
                  (example_selection [] [] ''my-queue'' ''INVALID_QUERY'' 100)))
       = TaskQueueName ''my-queue'' # CustomQuery ''INVALID_QUERY'' # []"
    by (simp_all add: spec_populated_def example_config_fields)
  have ids: "fetchHistories example_host
         (example_config (example_selection [] [''wf-1'', ''wf-2''] ''my-queue''
                            ''WorkflowType=X'' 100))
         (Some example_client)
       = ([FetchHistoryCall ''wf-1'', FetchHistoryCall ''wf-2'',
           Warning (FetchFailed ''wf-2'' ''Workflow not found'')],
          Inr [example_history ''wf-1''])"
    using priority_and_warning [OF parse_several_example p_ids, of example_host
            "Some example_client", THEN conjunct2, THEN conjunct2, THEN conjunct1]
    by (simp add: example_config_fields fetchByIds_def slice0_def example_fetches)
  have files: "callsOf (fst (fetchHistories example_host
         (example_config (example_selection ''histories/*.json'' [] [] ''WorkflowType=X'' 100))
         None))
       = [GlobCall ''histories/*.json'', ReadFileCall ''/h/bad.json'',
          ReadFileCall ''/h/one.json'', ReadFileCall ''/h/two.json'']
     \<and> snd (fetchHistories example_host
         (example_config (example_selection ''histories/*.json'' [] [] ''WorkflowType=X'' 100))
         None)
       = Inr [example_history ''/h/one.json'', example_history ''/h/two.json'']"
    using priority_and_warning [OF parse_files_example p_files, of example_host None,
            THEN conjunct2, THEN conjunct2, THEN conjunct2, THEN conjunct2]
    by (simp add: example_config_fields example_glob example_loads)
  have listing: "listHistories example_client (taskQueueQuery ''my-queue'')
                   = Inr (seq_of_list [example_history ''wf-1'', example_history ''wf-2'',
                                       example_history ''wf-3''])"
    by (simp add: example_client_def taskQueueQuery_def)
  have loop: "snd (queryLoop 100 0 (seq_of_list [example_history ''wf-1'', example_history ''wf-2'',
                                       example_history ''wf-3'']))
                = Inr [example_history ''wf-1'', example_history ''wf-2'', example_history ''wf-3'']"
    using queryLoop_finite [of 100 0 "[example_history ''wf-1'', example_history ''wf-2'',
                                       example_history ''wf-3'']"]
    by (simp add: seq_of_list_def)
  have queue: "take 1 (fst (fetchHistories example_host
         (example_config (example_selection [] [] ''my-queue'' ''INVALID_QUERY'' 100))
         (Some example_client)))
       = [ListCall (taskQueueQuery ''my-queue'')]
     \<and> snd (fetchHistories example_host
         (example_config (example_selection [] [] ''my-queue'' ''INVALID_QUERY'' 100))
         (Some example_client))
       = Inr [example_history ''wf-1'', example_history ''wf-2'', example_history ''wf-3'']"
    using priority_and_warning [OF parse_queue_query_example p_queue, of example_host
            "Some example_client", THEN conjunct2, THEN conjunct2, THEN conjunct2, THEN conjunct2]
    by (simp add: example_config_fields listing loop)
  show ?thesis
    using ids files queue p_ids p_files p_queue
    by (simp add: parse_several_example parse_files_example parse_queue_query_example
          example_config_fields)
qed

section \<open>The success rate of the job summary\<close>

lemma show_nat_digit: "n < 10 \<Longrightarrow> show_nat n = [''0123456789'' ! n]"
  by (subst show_nat.simps) simp

lemma show_nat_nonempty: "show_nat n \<noteq> []"
  by (subst show_nat.simps) simp

lemma show_nat_zero: "show_nat 0 = ''0''"
  by (simp add: show_nat_digit)

lemma rate_tenths_bounds:
  assumes "0 < t"
  shows "2 * t * rate_tenths t s \<le> 2000 * s + t"
    and "2000 * s + t < 2 * t * (rate_tenths t s + 1)"
proof -
  have pos: "0 < 2 * t" using assms by simp
  show "2 * t * rate_tenths t s \<le> 2000 * s + t"
    unfolding rate_tenths_def by (rule times_div_less_eq_dividend)
  show "2000 * s + t < 2 * t * (rate_tenths t s + 1)"
    unfolding rate_tenths_def using dividend_less_times_div [OF pos, of "2000 * s + t"]
    by (simp add: algebra_simps)
qed

lemma rate_tenths_nearest:
  assumes "0 < t"
  shows "\<bar>real (rate_tenths t s) / 10 - real s / real t * 100\<bar> \<le> 1 / 20"
proof -
  have a: "2 * real t * real (rate_tenths t s) \<le> 2000 * real s + real t"
    using rate_tenths_bounds(1) [OF assms, of s]
    by (metis (mono_tags, opaque_lifting) of_nat_add of_nat_le_iff of_nat_mult of_nat_numeral)
  have b: "2000 * real s + real t < 2 * real t * (real (rate_tenths t s) + 1)"
    using rate_tenths_bounds(2) [OF assms, of s]
    by (metis (mono_tags, opaque_lifting) of_nat_1 of_nat_add of_nat_less_iff of_nat_mult of_nat_numeral)
  have t: "0 < real t" using assms by simp
  have up: "real (rate_tenths t s) / 10 - real s / real t * 100 \<le> 1 / 20"
    using a t by (simp add: field_simps)
  have down: "- (1 / 20) \<le> real (rate_tenths t s) / 10 - real s / real t * 100"
    using b t by (simp add: field_simps)
  show ?thesis
  proof (rule abs_leI)
    show "real (rate_tenths t s) / 10 - real s / real t * 100 \<le> 1 / 20" by (rule up)
    show "- (real (rate_tenths t s) / 10 - real s / real t * 100) \<le> 1 / 20"
      using down by linarith
  qed
qed

lemma successRate_not_bare:
  "0 < t \<Longrightarrow> successRate t s \<noteq> ''0%''"
proof -
  assume "0 < t"
  then have "length (successRate t s) \<ge> 4"
    using show_nat_nonempty [of "rate_tenths t s div 10"]
          show_nat_nonempty [of "rate_tenths t s mod 10"]
    by (cases "show_nat (rate_tenths t s div 10)"; cases "show_nat (rate_tenths t s mod 10)")
       (simp_all add: successRate_def)
  then show ?thesis by auto
qed

text \<open>
  C8. The success-rate cell of the summary is \<open>0%\<close> when \<open>total = 0\<close>, and otherwise a
  number with exactly one decimal digit followed by \<open>%\<close>, the number being within one
  twentieth of \<open>successful / total * 100\<close>, that is rounded to one decimal place. For
  \<open>total > 0\<close> and \<open>successful = 0\<close> the cell is \<open>0.0%\<close>. The cell is \<open>0%\<close> exactly when
  \<open>total = 0\<close>.
\<close>

theorem success_rate_cell:
  "report_rate (generateJobSummary r)
     = (if total_count r = 0 then ''0%''
        else show_nat (rate_tenths (total_count r) (successful r) div 10) @ ''.''
             @ show_nat (rate_tenths (total_count r) (successful r) mod 10) @ ''%'')
   \<and> length (show_nat (rate_tenths (total_count r) (successful r) mod 10)) = 1
   \<and> (0 < total_count r \<longrightarrow>
        \<bar>real (rate_tenths (total_count r) (successful r)) / 10
           - real (successful r) / real (total_count r) * 100\<bar> \<le> 1 / 20)
   \<and> (0 < total_count r \<and> successful r = 0 \<longrightarrow> report_rate (generateJobSummary r) = ''0.0%'')
   \<and> (report_rate (generateJobSummary r) = ''0%'' \<longleftrightarrow> total_count r = 0)"
proof -
  have shape: "report_rate (generateJobSummary r)
     = (if total_count r = 0 then ''0%''
        else show_nat (rate_tenths (total_count r) (successful r) div 10) @ ''.''
             @ show_nat (rate_tenths (total_count r) (successful r) mod 10) @ ''%'')"
    by (simp add: generateJobSummary_def successRate_def)
  have digit: "length (show_nat (rate_tenths (total_count r) (successful r) mod 10)) = 1"
    by (simp add: show_nat_digit)
  have near: "0 < total_count r \<longrightarrow>
        \<bar>real (rate_tenths (total_count r) (successful r)) / 10
           - real (successful r) / real (total_count r) * 100\<bar> \<le> 1 / 20"
    using rate_tenths_nearest by blast
  have zero: "0 < total_count r \<and> successful r = 0 \<longrightarrow>
                report_rate (generateJobSummary r) = ''0.0%''"
    by (simp add: generateJobSummary_def successRate_def rate_tenths_def show_nat_zero)
  have bare: "report_rate (generateJobSummary r) = ''0%'' \<longleftrightarrow> total_count r = 0"
    using successRate_not_bare [of "total_count r" "successful r"]
    by (auto simp: generateJobSummary_def successRate_def)
  show ?thesis using shape digit near zero bare by blast
qed

theorem success_rate_cell_witness:
  "report_rate (generateJobSummary
      \<lparr> total_count = 5, successful = 0, failed = 5, determinismViolations = 5, results = [] \<rparr>)
     = ''0.0%''
   \<and> report_rate (generateJobSummary
      \<lparr> total_count = 0, successful = 0, failed = 0, determinismViolations = 0, results = [] \<rparr>)
     = ''0%''
   \<and> rate_tenths 3 1 = 333
   \<and> \<bar>real (rate_tenths 3 1) / 10 - real 1 / real 3 * 100\<bar> \<le> 1 / 20
   \<and> report_rate (generateJobSummary
      \<lparr> total_count = 3, successful = 1, failed = 2, determinismViolations = 0, results = [] \<rparr>)
     = ''33.3%''
   \<and> report_rate (generateJobSummary
      \<lparr> total_count = 10, successful = 7, failed = 3, determinismViolations = 2, results = [] \<rparr>)
     = ''70.0%''"
  using success_rate_cell
          [of "\<lparr> total_count = 5, successful = 0, failed = 5, determinismViolations = 5,
                results = [] \<rparr>"]
        success_rate_cell
          [of "\<lparr> total_count = 0, successful = 0, failed = 0, determinismViolations = 0,
                results = [] \<rparr>"]
        success_rate_cell
          [of "\<lparr> total_count = 3, successful = 1, failed = 2, determinismViolations = 0,
                results = [] \<rparr>"]
        success_rate_cell
          [of "\<lparr> total_count = 10, successful = 7, failed = 3, determinismViolations = 2,
                results = [] \<rparr>"]
  by (simp add: rate_tenths_def show_nat.simps)

section \<open>The failure rows of the job summary\<close>

lemma messageCell_cases:
  "messageCell None = ''No error message''"
  "message d = [] \<Longrightarrow> messageCell (Some d) = ''No error message''"
  "message d \<noteq> [] \<Longrightarrow> length (message d) \<le> 100 \<Longrightarrow> messageCell (Some d) = message d"
  "100 < length (message d) \<Longrightarrow> messageCell (Some d) = take 100 (message d) @ ''...''"
  by (auto simp: messageCell_def)

text \<open>
  C9. The failure-detail section is in the report exactly when \<open>failed > 0\<close>, and then
  has one row per outcome that is not a success, in order. A row holds the identifier of
  the outcome; its error kind, or \<open>Unknown\<close> when it has no error detail; and its
  message, replaced by \<open>No error message\<close> when it is empty or missing, and cut to its
  first 100 characters followed by \<open>...\<close> when it is longer than 100, which gives a cell
  of 103 characters (so for a message of 150 characters).
\<close>

theorem failure_detail_rows:
  "(report_failures (generateJobSummary r) \<noteq> None \<longleftrightarrow> 0 < failed r)
   \<and> (0 < failed r \<longrightarrow>
        report_failures (generateJobSummary r)
          = Some (map failureRow (filter (\<lambda>x. \<not> success x) (results r))))
   \<and> row_id (failureRow x) = workflowId x
   \<and> row_kind (failureRow x)
       = (case error x of
            None \<Rightarrow> ''Unknown''
          | Some d \<Rightarrow> (case type d of
                         DeterminismViolation \<Rightarrow> ''DeterminismViolation''
                       | ReplayError \<Rightarrow> ''ReplayError''))
   \<and> row_message (failureRow x)
       = (case error x of
            None \<Rightarrow> ''No error message''
          | Some d \<Rightarrow>
              if message d = [] then ''No error message''
              else if 100 < length (message d) then take 100 (message d) @ ''...''
              else message d)
   \<and> (error x = Some d \<and> 100 < length (message d) \<longrightarrow>
        length (row_message (failureRow x)) = 103
        \<and> drop 100 (row_message (failureRow x)) = ''...'')
   \<and> length (row_message (failureRow x)) \<le> 103"
proof -
  have included: "report_failures (generateJobSummary r) \<noteq> None \<longleftrightarrow> 0 < failed r"
    by (simp add: generateJobSummary_def)
  have rows: "0 < failed r \<longrightarrow>
        report_failures (generateJobSummary r)
          = Some (map failureRow (filter (\<lambda>x. \<not> success x) (results r)))"
    by (simp add: generateJobSummary_def)
  have ident: "row_id (failureRow x) = workflowId x"
    by (simp add: failureRow_def)
  have kind: "row_kind (failureRow x)
       = (case error x of
            None \<Rightarrow> ''Unknown''
          | Some d \<Rightarrow> (case type d of
                         DeterminismViolation \<Rightarrow> ''DeterminismViolation''
                       | ReplayError \<Rightarrow> ''ReplayError''))"
    by (simp add: failureRow_def kindCell_def)
  have msg: "row_message (failureRow x)
       = (case error x of
            None \<Rightarrow> ''No error message''
          | Some d \<Rightarrow>
              if message d = [] then ''No error message''
              else if 100 < length (message d) then take 100 (message d) @ ''...''
              else message d)"
    by (simp add: failureRow_def messageCell_def)
  have long: "error x = Some d \<and> 100 < length (message d) \<longrightarrow>
        length (row_message (failureRow x)) = 103
        \<and> drop 100 (row_message (failureRow x)) = ''...''"
    by (auto simp: failureRow_def messageCell_cases)
  have bound: "length (row_message (failureRow x)) \<le> 103"
    by (auto simp: failureRow_def messageCell_def split: option.splits)
  show ?thesis using included rows ident kind msg long bound by blast
qed

theorem failure_detail_rows_witness:
  "report_failures (generateJobSummary
      \<lparr> total_count = 1, successful = 0, failed = 1, determinismViolations = 0,
        results = [\<lparr> workflowId = JStr ''wf-1'', success = False,
                     error = Some \<lparr> type = ReplayError, message = replicate 150 CHR ''A'',
                                    stack = Some ''stack'' \<rparr> \<rparr>] \<rparr>)
     = Some [\<lparr> row_id = JStr ''wf-1'', row_kind = ''ReplayError'',
               row_message = replicate 100 CHR ''A'' @ ''...'' \<rparr>]
   \<and> length (replicate 100 CHR ''A'' @ ''...'') = 103
   \<and> report_failures (generateJobSummary
      \<lparr> total_count = 1, successful = 0, failed = 1, determinismViolations = 0,
        results = [\<lparr> workflowId = JStr ''wf-1'', success = False, error = None \<rparr>] \<rparr>)
     = Some [\<lparr> row_id = JStr ''wf-1'', row_kind = ''Unknown'',
               row_message = ''No error message'' \<rparr>]
   \<and> report_failures (generateJobSummary
      \<lparr> total_count = 1, successful = 1, failed = 0, determinismViolations = 0,
        results = [\<lparr> workflowId = JStr ''wf-1'', success = True, error = None \<rparr>] \<rparr>)
     = None"
  using failure_detail_rows
          [of "\<lparr> total_count = 1, successful = 0, failed = 1, determinismViolations = 0,
        results = [\<lparr> workflowId = JStr ''wf-1'', success = False,
                     error = Some \<lparr> type = ReplayError, message = replicate 150 CHR ''A'',
                                    stack = Some ''stack'' \<rparr> \<rparr>] \<rparr>"
              "\<lparr> workflowId = JStr ''wf-1'', success = False,
                     error = Some \<lparr> type = ReplayError, message = replicate 150 CHR ''A'',
                                    stack = Some ''stack'' \<rparr> \<rparr>"
              "\<lparr> type = ReplayError, message = replicate 150 CHR ''A'',
                                    stack = Some ''stack'' \<rparr>"]
        failure_detail_rows
          [of "\<lparr> total_count = 1, successful = 0, failed = 1, determinismViolations = 0,
        results = [\<lparr> workflowId = JStr ''wf-1'', success = False, error = None \<rparr>] \<rparr>"
              "\<lparr> workflowId = JStr ''wf-1'', success = False, error = None \<rparr>"]
        failure_detail_rows
          [of "\<lparr> total_count = 1, successful = 1, failed = 0, determinismViolations = 0,
        results = [\<lparr> workflowId = JStr ''wf-1'', success = True, error = None \<rparr>] \<rparr>"]
  by (simp add: failureRow_def kindCell_def messageCell_def)

section \<open>The scenarios of the unit tests\<close>

lemma extractWorkflowId_examples:
  "extractWorkflowId (JObj [(''workflowId'', JStr ''extracted-id''), (''events'', JArr [])])
     = JStr ''extracted-id''"
  "extractWorkflowId (JObj [(''events'', JArr [])]) = JStr ''unknown''"
  "extractWorkflowId
     (JObj [(''events'',
             JArr [JObj [(''workflowExecutionStartedEventAttributes'',
                          JObj [(''workflowId'', JStr ''id-from-events'')])]])])
     = JStr ''id-from-events''"
  "extractWorkflowId JNull = JStr ''unknown''"
  "extractWorkflowId (JObj [(''workflowId'', JNum 42), (''events'', JArr [JStr ''x''])])
     = JStr ''unknown''"
  by (simp_all add: extractWorkflowId_def extractWorkflowId_try_def eventsId_def firstEventId_def)

lemma awkward_id:
  "extractWorkflowId awkward_history = JObj [(''toString'', JNull)]"
  "toString_throws (JObj [(''toString'', JNull)])"
  "\<not> toString_throws (JStr s)"
  by (simp_all add: awkward_history_def extractWorkflowId_def extractWorkflowId_try_def
        eventsId_def firstEventId_def)

lemma example_id: "extractWorkflowId (example_history w) = JStr w"
  by (simp add: example_history_def extractWorkflowId_def extractWorkflowId_try_def)

lemma conversion_failures:
  "runReplayTests resolving_engine ''lib/workflows'' [example_history ''wf-1'', awkward_history] 0
     = (Inl (IdConversionError (JObj [(''toString'', JNull)])), [], 1)"
  "runReplayTests (scripted_engine [None, Some Unconvertible]) ''lib/workflows''
       [example_history ''wf-1'', example_history ''wf-2'', example_history ''wf-3''] 0
     = (Inl RejectionConversionError, [], 2)"
  by (simp_all add: runReplayTests_def replayIteration_def Let_def resolving_engine_def
        scripted_engine_def awkward_id example_id)

theorem replay_step_outcome_witness:
  "\<not> toString_throws (spec_deriveId (example_history ''wf-1''))
   \<and> replayIteration
      (rejecting_engine (ErrorInstance ''DeterminismViolationError'' ''Command mismatch at event 5''
                           (Some ''trace'')))
      ''lib/workflows'' (example_history ''wf-1'')
      \<lparr> lv_results = [], lv_determinismViolations = 0, lv_otherErrors = 0, lv_worker = 0,
        lv_events = [] \<rparr>
     = (None,
        \<lparr> lv_results =
            [\<lparr> workflowId = JStr ''wf-1'', success = False,
                error = Some \<lparr> type = DeterminismViolation,
                               message = ''Command mismatch at event 5'',
                               stack = Some ''trace'' \<rparr> \<rparr>],
          lv_determinismViolations = 1, lv_otherErrors = 0, lv_worker = 1,
          lv_events = [ReplayFailureLog DeterminismViolation (JStr ''wf-1'')
                         ''Command mismatch at event 5''] \<rparr>)
   \<and> lv_results (snd (replayIteration (rejecting_engine (OtherThrown None ''String error''))
      ''lib/workflows'' (JObj [(''events'', JArr [])])
      \<lparr> lv_results = [], lv_determinismViolations = 0, lv_otherErrors = 0, lv_worker = 0,
        lv_events = [] \<rparr>))
     = [\<lparr> workflowId = JStr ''unknown'', success = False,
           error = Some \<lparr> type = ReplayError, message = ''String error'', stack = None \<rparr> \<rparr>]
   \<and> lv_results (snd (replayIteration resolving_engine
      ''lib/workflows'' (example_history ''wf-1'')
      \<lparr> lv_results = [], lv_determinismViolations = 0, lv_otherErrors = 0, lv_worker = 0,
        lv_events = [] \<rparr>))
     = [\<lparr> workflowId = JStr ''wf-1'', success = True, error = None \<rparr>]"
proof -
  have ids: "spec_deriveId (example_history ''wf-1'') = JStr ''wf-1''"
    "spec_deriveId (JObj [(''events'', JArr [])]) = JStr ''unknown''"
    by (simp_all add: example_history_def spec_deriveId_def spec_topLevelId_def spec_nestedId_def)
  have a: "lv_results (snd (replayIteration
      (rejecting_engine (ErrorInstance ''DeterminismViolationError'' ''Command mismatch at event 5''
                           (Some ''trace'')))
      ''lib/workflows'' (example_history ''wf-1'')
      \<lparr> lv_results = [], lv_determinismViolations = 0, lv_otherErrors = 0, lv_worker = 0,
        lv_events = [] \<rparr>))
     = [\<lparr> workflowId = JStr ''wf-1'', success = False,
                error = Some \<lparr> type = DeterminismViolation,
                               message = ''Command mismatch at event 5'',
                               stack = Some ''trace'' \<rparr> \<rparr>]"
    using replay_step_outcome
          [where h = "example_history ''wf-1''"
             and vars = "\<lparr> lv_results = [], lv_determinismViolations = 0,
                 lv_otherErrors = 0, lv_worker = 0, lv_events = [] \<rparr>"
             and engine = "rejecting_engine (ErrorInstance ''DeterminismViolationError''
                                   ''Command mismatch at event 5'' (Some ''trace''))"
             and p = "''lib/workflows''"
             and err = "ErrorInstance ''DeterminismViolationError'' ''Command mismatch at event 5''
                 (Some ''trace'')"]
    by (simp add: ids rejecting_engine_def)
  have b: "lv_results (snd (replayIteration (rejecting_engine (OtherThrown None ''String error''))
      ''lib/workflows'' (JObj [(''events'', JArr [])])
      \<lparr> lv_results = [], lv_determinismViolations = 0, lv_otherErrors = 0, lv_worker = 0,
        lv_events = [] \<rparr>))
     = [\<lparr> workflowId = JStr ''unknown'', success = False,
           error = Some \<lparr> type = ReplayError, message = ''String error'', stack = None \<rparr> \<rparr>]"
    using replay_step_outcome
          [where h = "JObj [(''events'', JArr [])]"
             and vars = "\<lparr> lv_results = [], lv_determinismViolations = 0,
                 lv_otherErrors = 0, lv_worker = 0, lv_events = [] \<rparr>"
             and engine = "rejecting_engine (OtherThrown None ''String error'')"
             and p = "''lib/workflows''" and err = "OtherThrown None ''String error''"]
    by (simp add: ids rejecting_engine_def)
  have c: "lv_results (snd (replayIteration resolving_engine
      ''lib/workflows'' (example_history ''wf-1'')
      \<lparr> lv_results = [], lv_determinismViolations = 0, lv_otherErrors = 0, lv_worker = 0,
        lv_events = [] \<rparr>))
     = [\<lparr> workflowId = JStr ''wf-1'', success = True, error = None \<rparr>]"
    using replay_step_outcome
          [where h = "example_history ''wf-1''"
             and vars = "\<lparr> lv_results = [], lv_determinismViolations = 0,
                 lv_otherErrors = 0, lv_worker = 0, lv_events = [] \<rparr>"
             and engine = resolving_engine and p = "''lib/workflows''"]
    by (simp add: ids resolving_engine_def)
  have d: "replayIteration
      (rejecting_engine (ErrorInstance ''DeterminismViolationError'' ''Command mismatch at event 5''
                           (Some ''trace'')))
      ''lib/workflows'' (example_history ''wf-1'')
      \<lparr> lv_results = [], lv_determinismViolations = 0, lv_otherErrors = 0, lv_worker = 0,
        lv_events = [] \<rparr>
     = (None,
        \<lparr> lv_results =
            [\<lparr> workflowId = JStr ''wf-1'', success = False,
                error = Some \<lparr> type = DeterminismViolation,
                               message = ''Command mismatch at event 5'',
                               stack = Some ''trace'' \<rparr> \<rparr>],
          lv_determinismViolations = 1, lv_otherErrors = 0, lv_worker = 1,
          lv_events = [ReplayFailureLog DeterminismViolation (JStr ''wf-1'')
                         ''Command mismatch at event 5''] \<rparr>)"
    by (simp add: replayIteration_alt ids rejecting_engine_def failureResult_def
          isDeterminismViolation_def)
  show ?thesis using a b c d by (simp add: ids)
qed

lemma mixed_run:
  "runReplayTests
     (scripted_engine
        [None,
         Some (Thrown (ErrorInstance ''DeterminismViolationError'' ''Determinism error'' None)),
         Some (Thrown (ErrorInstance ''Error'' ''Other error'' None))])
     ''lib/workflows'' [example_history ''wf-1'', example_history ''wf-2'', example_history ''wf-3''] 0
   = (Inr \<lparr> total_count = 3, successful = 1, failed = 2, determinismViolations = 1,
        results =
          [\<lparr> workflowId = JStr ''wf-1'', success = True, error = None \<rparr>,
           \<lparr> workflowId = JStr ''wf-2'', success = False,
             error = Some \<lparr> type = DeterminismViolation, message = ''Determinism error'',
                            stack = None \<rparr> \<rparr>,
           \<lparr> workflowId = JStr ''wf-3'', success = False,
             error = Some \<lparr> type = ReplayError, message = ''Other error'', stack = None \<rparr> \<rparr>] \<rparr>,
      [ReplayFailureLog DeterminismViolation (JStr ''wf-2'') ''Determinism error'',
       ReplayFailureLog ReplayError (JStr ''wf-3'') ''Other error''],
      3)"
  by (simp add: runReplayTests_def replayIteration_def Let_def scripted_engine_def
        successResult_def failureResult_def isDeterminismViolation_def example_history_def
        extractWorkflowId_def extractWorkflowId_try_def)

theorem runReplayTests_invariants_witness:
  "fst (runReplayTests
     (scripted_engine
        [None,
         Some (Thrown (ErrorInstance ''DeterminismViolationError'' ''Determinism error'' None)),
         Some (Thrown (ErrorInstance ''Error'' ''Other error'' None))])
     ''lib/workflows'' [example_history ''wf-1'', example_history ''wf-2'', example_history ''wf-3''] 0)
   = Inr \<lparr> total_count = 3, successful = 1, failed = 2, determinismViolations = 1,
        results =
          [\<lparr> workflowId = JStr ''wf-1'', success = True, error = None \<rparr>,
           \<lparr> workflowId = JStr ''wf-2'', success = False,
             error = Some \<lparr> type = DeterminismViolation, message = ''Determinism error'',
                            stack = None \<rparr> \<rparr>,
           \<lparr> workflowId = JStr ''wf-3'', success = False,
             error = Some \<lparr> type = ReplayError, message = ''Other error'', stack = None \<rparr> \<rparr>] \<rparr>
   \<and> spec_unhindered
       (scripted_engine
          [None,
           Some (Thrown (ErrorInstance ''DeterminismViolationError'' ''Determinism error'' None)),
           Some (Thrown (ErrorInstance ''Error'' ''Other error'' None))])
       ''lib/workflows'' [example_history ''wf-1'', example_history ''wf-2'', example_history ''wf-3''] 0
   \<and> fst (runReplayTests resolving_engine ''lib/workflows''
            [example_history ''wf-1'', awkward_history] 0)
       = Inl (IdConversionError (JObj [(''toString'', JNull)]))
   \<and> \<not> spec_unhindered resolving_engine ''lib/workflows''
          [example_history ''wf-1'', awkward_history] 0
   \<and> fst (runReplayTests resolving_engine ''lib/workflows'' [] 0)
       = Inr \<lparr> total_count = 0, successful = 0, failed = 0, determinismViolations = 0,
               results = [] \<rparr>"
  using runReplayTests_invariants
          [of "scripted_engine
                 [None,
                  Some (Thrown (ErrorInstance ''DeterminismViolationError'' ''Determinism error''
                                  None)),
                  Some (Thrown (ErrorInstance ''Error'' ''Other error'' None))]"
              "''lib/workflows''"
              "[example_history ''wf-1'', example_history ''wf-2'', example_history ''wf-3'']" 0]
        runReplayTests_invariants
          [of resolving_engine "''lib/workflows''" "[example_history ''wf-1'', awkward_history]" 0]
        runReplayTests_invariants [of resolving_engine "''lib/workflows''" "[]" 0]
  by (simp add: mixed_run conversion_failures) (simp add: runReplayTests_def)

lemma fetch_examples:
  "fetchHistories example_host
     (example_config (example_selection ''histories/*.json'' [] [] [] 2)) None
   = ([GlobCall ''histories/*.json'', Warning (LimitingFiles 2 3),
       ReadFileCall ''/h/bad.json'', Warning (LoadFailed ''/h/bad.json'' ''File not found''),
       ReadFileCall ''/h/one.json''],
      Inr [example_history ''/h/one.json''])"
  "fetchHistories example_host
     (example_config (example_selection [] [''wf-1''] [] [] 100)) None
   = ([], Inl EngineRequiredError)"
  "fetchHistories example_host
     (example_config (example_selection [] [] ''test-queue'' [] 2)) (Some example_client)
   = ([ListCall (''TaskQueue='' @ [CHR 0x22] @ ''test-queue'' @ [CHR 0x22]),
       NextHistoryCall, NextHistoryCall, NextHistoryCall, Warning (MaxReached 2)],
      Inr [example_history ''wf-1'', example_history ''wf-2''])"
  "fetchHistories example_host
     (example_config (example_selection [] [] [] ''INVALID_QUERY'' 100)) (Some example_client)
   = ([ListCall ''INVALID_QUERY'', ErrorLog ''Failed to fetch histories: Invalid query syntax''],
      Inl (FetchError ''Invalid query syntax''))"
  by (simp_all add: fetchHistories_def example_config_def example_selection_def
        fetchFromFiles_def fetchByTaskQueue_def fetchByQuery_def taskQueueQuery_def
        example_glob slice0_def example_loads example_client_def numeral_3_eq_3
        seq_of_list_def queryLoop.simps)

end
